theory Spec2Isabelle
  imports Main "HOL-Library.AList"
begin

section \<open>JavaScript values\<close>

text \<open>
  A raw node descriptor is typed \<open>any\<close> in \<open>CustomProvider.ts\<close>, so descriptors and
  the objects returned by the schema validators are modelled as untyped JavaScript
  values. An object is the association list of its own properties in insertion order
  (the first binding of a key is the live one); an array is the object of its index
  properties, which is all this code can observe of it, since it never reads
  \<open>length\<close> and calls no array method on a descriptor. A string is the list of
  the bytes of its UTF-8 encoding (JavaScript strings are taken to be well-formed
  UTF-16); the code cuts strings only at ASCII characters, where the bytes and the
  code units are cut alike. Of the numbers, \<open>JNum n\<close> is the double that equals the
  integer \<open>n\<close>, \<open>JNegZero\<close> is \<open>-0\<close>, and \<open>JRounded n\<close> is the double that
  \<open>parseInt\<close> gives for a decimal numeral of value \<open>n\<close> beyond \<open>2^53\<close>, where
  the result is a rounding of \<open>n\<close> that the language leaves in part to the
  implementation (it may be infinite); it is not zero. Doubles that are not integers
  and function values are not modelled.
\<close>

datatype jsval =
    JUndefined
  | JNull
  | JBool bool
  | JNum int
  | JNegZero
  | JRounded int
  | JNaN
  | JStr string
  | JObj "(string \<times> jsval) list"

text \<open>ToBoolean, as used by \<open>if (x)\<close>, \<open>!x\<close>, \<open>x && y\<close> and \<open>x || y\<close>.\<close>

fun truthy :: "jsval \<Rightarrow> bool" where
  "truthy JUndefined = False"
| "truthy JNull = False"
| "truthy (JBool b) = b"
| "truthy (JNum n) = (n \<noteq> 0)"
| "truthy JNegZero = False"
| "truthy (JRounded n) = True"
| "truthy JNaN = False"
| "truthy (JStr s) = (s \<noteq> [])"
| "truthy (JObj kvs) = True"

text \<open>
  Every \<open>throw\<close> of the source and every TypeError the runtime raises on the modelled
  values is a constructor. The messages of the source that are not ASCII are named by
  their content: \<open>Deprecated f r\<close> is "\<open>f\<close> is deprecated, use \<open>r\<close>",
  \<open>UnrecognizedNodeType t\<close> is the dispatcher's default branch, \<open>WsHeadersConflict\<close>
  is "wsOpts.headers and wsHeaders cannot both exist", \<open>MovePathTo p\<close> is "move path
  to \<open>p\<close>". \<open>External\<close> stands for whatever a collaborator (a schema validator, the
  node supplier) throws.
\<close>

datatype error =
    CannotReadProperty string
  | CannotSetProperty string
  | NotAFunction string
  | InvalidBase64Format
  | Deprecated string string
  | UnrecognizedNodeType jsval
  | WsHeadersConflict
  | MovePathTo string
  | External string

text \<open>
  \<open>v.k\<close> and \<open>v[k]\<close>: reading a property of \<open>undefined\<close> or \<open>null\<close> throws; a
  primitive has none of the properties this code reads; an object yields its own
  property or \<open>undefined\<close>.
\<close>

fun getProp :: "jsval \<Rightarrow> string \<Rightarrow> error + jsval" where
  "getProp JUndefined k = Inl (CannotReadProperty k)"
| "getProp JNull k = Inl (CannotReadProperty k)"
| "getProp (JObj kvs) k = Inr (case map_of kvs k of None \<Rightarrow> JUndefined | Some v \<Rightarrow> v)"
| "getProp v k = Inr JUndefined"

text \<open>
  \<open>v.k = x\<close> in strict mode (the file is a module): an object gets the property,
  in place if it has the key and appended otherwise; anything else throws.
\<close>

fun setProp :: "jsval \<Rightarrow> string \<Rightarrow> jsval \<Rightarrow> error + jsval" where
  "setProp (JObj kvs) k x = Inr (JObj (AList.update k x kvs))"
| "setProp v k x = Inl (CannotSetProperty k)"

text \<open>Sequencing of steps that may throw.\<close>

definition andThen :: "error + 'a \<Rightarrow> ('a \<Rightarrow> error + 'b) \<Rightarrow> error + 'b" where
  "andThen r f = (case r of Inl e \<Rightarrow> Inl e | Inr x \<Rightarrow> f x)"

text \<open>The value of a property for stating results: \<open>undefined\<close> where the read throws.\<close>

definition field :: "jsval \<Rightarrow> string \<Rightarrow> jsval" where
  "field v k = (case getProp v k of Inl e \<Rightarrow> JUndefined | Inr x \<Rightarrow> x)"

section \<open>Node types\<close>

text \<open>
  Modelled from the spec: the enumeration \<open>NodeTypeEnum\<close> is declared in \<open>../types\<close>,
  which is not among the sources. Its twelve members are the cases of the dispatcher's
  \<open>switch\<close>; their string values are the variant names the spec lists (shadowsocks,
  shadowsocksr, vmess, trojan, socks5, http, https, snell, tuic, wireguard, hysteria2,
  vless).
\<close>

datatype NodeTypeEnum =
    Shadowsocks | Shadowsocksr | Vmess | Trojan | Socks5 | HTTP | HTTPS
  | Snell | Tuic | Wireguard | Hysteria2 | Vless

fun enumValue :: "NodeTypeEnum \<Rightarrow> string" where
  "enumValue Shadowsocks = ''shadowsocks''"
| "enumValue Shadowsocksr = ''shadowsocksr''"
| "enumValue Vmess = ''vmess''"
| "enumValue Trojan = ''trojan''"
| "enumValue Socks5 = ''socks5''"
| "enumValue HTTP = ''http''"
| "enumValue HTTPS = ''https''"
| "enumValue Snell = ''snell''"
| "enumValue Tuic = ''tuic''"
| "enumValue Wireguard = ''wireguard''"
| "enumValue Hysteria2 = ''hysteria2''"
| "enumValue Vless = ''vless''"

text \<open>
  The \<open>switch (type)\<close> of the dispatcher compares with \<open>===\<close>, in the order of its
  cases; a value that equals no member falls to \<open>default\<close>.
\<close>

definition switchCases :: "NodeTypeEnum list" where
  "switchCases = [Shadowsocks, Shadowsocksr, Vmess, Trojan, Socks5, HTTP, HTTPS,
                  Snell, Tuic, Wireguard, Hysteria2, Vless]"

definition typeTag :: "jsval \<Rightarrow> NodeTypeEnum option" where
  "typeTag v = (case v of JStr s \<Rightarrow> find (\<lambda>t. enumValue t = s) switchCases | _ \<Rightarrow> None)"

section \<open>The legacy envelope\<close>

text \<open>
  \<open>/^(ss|vmess):\/\/([A-Za-z0-9+/=]+)(#.*)?$/\<close>: the result of a successful
  \<open>match\<close> is the pair of groups 1 and 2. No character of the second group's class is
  \<open>#\<close>, so the group is the longest run of class characters after the scheme; what
  follows must be empty or \<open>#\<close> and characters other than the line terminators
  U+000A, U+000D, U+2028 and U+2029, the last two being three bytes each.
\<close>

definition isBase64Char :: "char \<Rightarrow> bool" where
  "isBase64Char c =
     (let n = (of_char c :: nat)
      in (65 \<le> n \<and> n \<le> 90) \<or> (97 \<le> n \<and> n \<le> 122) \<or> (48 \<le> n \<and> n \<le> 57)
         \<or> c = CHR ''+'' \<or> c = CHR ''/'' \<or> c = CHR ''='')"

definition startsWith :: "string \<Rightarrow> string \<Rightarrow> bool" where
  "startsWith s w = (take (length w) s = w)"

definition lineTerminators :: "string list" where
  "lineTerminators = [[CHR 0x0A], [CHR 0x0D], [CHR 0xE2, CHR 0x80, CHR 0xA8], [CHR 0xE2, CHR 0x80, CHR 0xA9]]"

fun hasLineTerminator :: "string \<Rightarrow> bool" where
  "hasLineTerminator [] = False"
| "hasLineTerminator (c # cs) =
     (list_ex (startsWith (c # cs)) lineTerminators \<or> hasLineTerminator cs)"

definition stripPrefix :: "string \<Rightarrow> string \<Rightarrow> string option" where
  "stripPrefix p s = (if take (length p) s = p then Some (drop (length p) s) else None)"

definition matchPayload :: "string \<Rightarrow> string option" where
  "matchPayload rest =
     (let payload = takeWhile isBase64Char rest;
          frag = dropWhile isBase64Char rest
      in if payload \<noteq> []
            \<and> (case frag of [] \<Rightarrow> True
                | c # cs \<Rightarrow> c = CHR ''#'' \<and> \<not> hasLineTerminator cs)
         then Some payload else None)"

definition base64Pattern :: "string \<Rightarrow> (string \<times> string) option" where
  "base64Pattern s =
     (case stripPrefix ''ss://'' s of
        Some rest \<Rightarrow> map_option (Pair ''ss'') (matchPayload rest)
      | None \<Rightarrow>
         (case stripPrefix ''vmess://'' s of
            Some rest \<Rightarrow> map_option (Pair ''vmess'') (matchPayload rest)
          | None \<Rightarrow> None))"

definition nodeTypeMap :: "string \<Rightarrow> NodeTypeEnum option" where
  "nodeTypeMap = map_of [(''ss'', Shadowsocks), (''vmess'', Vmess)]"

text \<open>
  \<open>Base64.decode\<close> of the js-base64 package, as it runs under Node.js, where it is
  \<open>Buffer.from(a, 'base64').toString('utf8')\<close> after \<open>-\<close> and \<open>_\<close> have been
  replaced by \<open>+\<close> and \<open>/\<close> and every character outside the alphabet (the
  padding too) has been dropped. \<open>Buffer.from\<close> packs the sextets into bytes and
  discards an incomplete last byte; it does not throw. \<open>toString\<close> reads the bytes
  as UTF-8 and puts U+FFFD (bytes EF BF BD) for every maximal ill-formed part: a byte
  that cannot start a character, or a started character cut short by a byte that
  cannot continue it or by the end, the cutting byte being read again.
\<close>

definition sextet :: "char \<Rightarrow> nat option" where
  "sextet c =
     (let n = (of_char c :: nat)
      in if 65 \<le> n \<and> n \<le> 90 then Some (n - 65)
         else if 97 \<le> n \<and> n \<le> 122 then Some (n - 71)
         else if 48 \<le> n \<and> n \<le> 57 then Some (n + 4)
         else if c = CHR ''+'' \<or> c = CHR ''-'' then Some 62
         else if c = CHR ''/'' \<or> c = CHR ''_'' then Some 63
         else None)"

fun packSextets :: "nat list \<Rightarrow> nat list" where
  "packSextets (a # b # c # d # r) =
     (4 * a + b div 16) # (16 * (b mod 16) + c div 4) # (64 * (c mod 4) + d) # packSextets r"
| "packSextets [a, b, c] = [4 * a + b div 16, 16 * (b mod 16) + c div 4]"
| "packSextets [a, b] = [4 * a + b div 16]"
| "packSextets r = []"

definition replacement :: "nat list" where
  "replacement = [239, 191, 189]"

definition continuation :: "nat \<Rightarrow> nat \<Rightarrow> nat \<Rightarrow> bool" where
  "continuation lower upper b = (lower \<le> b \<and> b \<le> upper)"

fun toStringUtf8 :: "nat list \<Rightarrow> nat list" where
  "toStringUtf8 [] = []"
| "toStringUtf8 (b # bs) =
     (if b < 128 then b # toStringUtf8 bs
      else if 194 \<le> b \<and> b \<le> 223 then
        (case bs of
           [] \<Rightarrow> replacement
         | c # r \<Rightarrow>
             if continuation 128 191 c then b # c # toStringUtf8 r
             else replacement @ toStringUtf8 bs)
      else if 224 \<le> b \<and> b \<le> 239 then
        (case bs of
           [] \<Rightarrow> replacement
         | c # r \<Rightarrow>
             if continuation (if b = 224 then 160 else 128) (if b = 237 then 159 else 191) c then
               (case r of
                  [] \<Rightarrow> replacement
                | d # r' \<Rightarrow>
                    if continuation 128 191 d then b # c # d # toStringUtf8 r'
                    else replacement @ toStringUtf8 r)
             else replacement @ toStringUtf8 bs)
      else if 240 \<le> b \<and> b \<le> 244 then
        (case bs of
           [] \<Rightarrow> replacement
         | c # r \<Rightarrow>
             if continuation (if b = 240 then 144 else 128) (if b = 244 then 143 else 191) c then
               (case r of
                  [] \<Rightarrow> replacement
                | d # r' \<Rightarrow>
                    if continuation 128 191 d then
                      (case r' of
                         [] \<Rightarrow> replacement
                       | e # r'' \<Rightarrow>
                           if continuation 128 191 e then b # c # d # e # toStringUtf8 r''
                           else replacement @ toStringUtf8 r')
                    else replacement @ toStringUtf8 r)
             else replacement @ toStringUtf8 bs)
      else replacement @ toStringUtf8 bs)"

definition Base64_decode :: "string \<Rightarrow> string" where
  "Base64_decode src = map char_of (toStringUtf8 (packSextets (List.map_filter sextet src)))"

text \<open>\<open>s.split(c)\<close> for a one-character separator: never empty.\<close>

fun splitStr :: "char \<Rightarrow> string \<Rightarrow> string list" where
  "splitStr c [] = [[]]"
| "splitStr c (x # xs) =
     (if x = c then [] # splitStr c xs
      else (case splitStr c xs of [] \<Rightarrow> [[x]] | w # ws \<Rightarrow> (x # w) # ws))"

text \<open>Array destructuring: a position beyond the end binds \<open>undefined\<close>.\<close>

fun element :: "'a list \<Rightarrow> nat \<Rightarrow> 'a option" where
  "element [] i = None"
| "element (x # xs) 0 = Some x"
| "element (x # xs) (Suc i) = element xs i"

definition strOrUndefined :: "string option \<Rightarrow> jsval" where
  "strOrUndefined v = (case v of None \<Rightarrow> JUndefined | Some s \<Rightarrow> JStr s)"

text \<open>
  \<open>parseInt(x, 10)\<close>: ToString of the argument, leading white space skipped, an
  optional sign, then the longest run of decimal digits; \<open>NaN\<close> when there is none.
  The white space is that of \<open>StrWhiteSpaceChar\<close>: U+0009 to U+000D, U+0020,
  U+00A0, U+1680, U+2000 to U+200A, U+2028, U+2029, U+202F, U+205F, U+3000 and U+FEFF,
  each in its UTF-8 bytes. A run of value up to \<open>2^53\<close> is a double exactly; beyond
  that the result is \<open>JRounded\<close>.
\<close>

definition strWhiteSpace :: "string list" where
  "strWhiteSpace =
     [[CHR 0x09], [CHR 0x0A], [CHR 0x0B],
      [CHR 0x0C], [CHR 0x0D], [CHR 0x20],
      [CHR 0xC2, CHR 0xA0], [CHR 0xE1, CHR 0x9A, CHR 0x80], [CHR 0xE2, CHR 0x80, CHR 0x80],
      [CHR 0xE2, CHR 0x80, CHR 0x81], [CHR 0xE2, CHR 0x80, CHR 0x82], [CHR 0xE2, CHR 0x80, CHR 0x83],
      [CHR 0xE2, CHR 0x80, CHR 0x84], [CHR 0xE2, CHR 0x80, CHR 0x85], [CHR 0xE2, CHR 0x80, CHR 0x86],
      [CHR 0xE2, CHR 0x80, CHR 0x87], [CHR 0xE2, CHR 0x80, CHR 0x88], [CHR 0xE2, CHR 0x80, CHR 0x89],
      [CHR 0xE2, CHR 0x80, CHR 0x8A], [CHR 0xE2, CHR 0x80, CHR 0xA8], [CHR 0xE2, CHR 0x80, CHR 0xA9],
      [CHR 0xE2, CHR 0x80, CHR 0xAF], [CHR 0xE2, CHR 0x81, CHR 0x9F], [CHR 0xE3, CHR 0x80, CHR 0x80],
      [CHR 0xEF, CHR 0xBB, CHR 0xBF]]"

function skipWhiteSpace :: "string \<Rightarrow> string" where
  "skipWhiteSpace s =
     (case find (startsWith s) strWhiteSpace of
        None \<Rightarrow> s
      | Some w \<Rightarrow> skipWhiteSpace (drop (length w) s))"
  by pat_completeness auto
termination
proof (relation "measure length")
  show "wf (measure length)" by simp
next
  fix s w
  assume "find (startsWith s) strWhiteSpace = Some w"
  then have "w \<in> set strWhiteSpace" and "take (length w) s = w"
    by (auto simp: find_Some_iff startsWith_def)
  moreover from \<open>w \<in> set strWhiteSpace\<close> have "w \<noteq> []"
    by (auto simp: strWhiteSpace_def)
  ultimately have "s \<noteq> []" by auto
  with \<open>w \<noteq> []\<close> show "(drop (length w) s, s) \<in> measure length"
    by simp
qed

declare skipWhiteSpace.simps [simp del]

definition isDigit :: "char \<Rightarrow> bool" where
  "isDigit c = (let n = (of_char c :: nat) in 48 \<le> n \<and> n \<le> 57)"

definition digitsValue :: "string \<Rightarrow> int" where
  "digitsValue ds = foldl (\<lambda>a c. 10 * a + (int (of_char c) - 48)) 0 ds"

definition toNumber :: "bool \<Rightarrow> int \<Rightarrow> jsval" where
  "toNumber neg v =
     (if v \<le> 9007199254740992 then
        (if neg then (if v = 0 then JNegZero else JNum (- v)) else JNum v)
      else JRounded (if neg then - v else v))"

definition signedDigits :: "string \<Rightarrow> jsval" where
  "signedDigits s =
     (let neg = (take 1 s = ''-'');
          u = (if take 1 s = ''-'' \<or> take 1 s = ''+'' then drop 1 s else s);
          ds = takeWhile isDigit u
      in if ds = [] then JNaN else toNumber neg (digitsValue ds))"

definition parseInt :: "string option \<Rightarrow> jsval" where
  "parseInt x =
     signedDigits (skipWhiteSpace (case x of None \<Rightarrow> ''undefined'' | Some t \<Rightarrow> t))"

text \<open>
  The \<open>ss\<close> case of the decoder (lines 89 to 99): the payload is split at every
  \<open>:\<close>, the second piece at every \<open>@\<close>, and the object literal spreads the
  descriptor and then writes \<open>type\<close>, \<open>hostname\<close>, \<open>port\<close>, \<open>method\<close> and
  \<open>password\<close>. With no second piece, \<open>passwordWithHost.split\<close> throws. Only an
  object reaches the spread, since only an object has a truthy \<open>base64\<close>.
\<close>

fun spread :: "jsval \<Rightarrow> (string \<times> jsval) list" where
  "spread (JObj kvs) = kvs"
| "spread v = []"

definition decodeShadowsocks :: "jsval \<Rightarrow> string \<Rightarrow> error + jsval" where
  "decodeShadowsocks node decoded =
     (let parts = splitStr CHR '':'' decoded;
          method = element parts 0;
          passwordWithHost = element parts 1;
          port = element parts 2
      in case passwordWithHost of
           None \<Rightarrow> Inl (CannotReadProperty ''split'')
         | Some pwh \<Rightarrow>
             (let pieces = splitStr CHR ''@'' pwh;
                  password = element pieces 0;
                  hostname = element pieces 1
              in Inr (JObj
                   (AList.update ''password'' (strOrUndefined password)
                   (AList.update ''method'' (strOrUndefined method)
                   (AList.update ''port'' (parseInt port)
                   (AList.update ''hostname'' (strOrUndefined hostname)
                   (AList.update ''type'' (JStr (enumValue Shadowsocks))
                      (spread node)))))))))"

text \<open>
  Lines 73 to 112. The result carries the \<open>console.error\<close> lines the stage prints.
  A truthy \<open>base64\<close> that is not a string has no \<open>match\<close> method, so the call throws.
\<close>

definition unsupportedSchemeMessage :: string where
  "unsupportedSchemeMessage = ''Base64 extraction is only supported for shadowsocks and vmess''"

definition decodeEnvelope :: "jsval \<Rightarrow> string list \<times> (error + jsval)" where
  "decodeEnvelope node =
     (case getProp node ''base64'' of
        Inl e \<Rightarrow> ([], Inl e)
      | Inr b \<Rightarrow>
          if truthy b then
            (case b of
               JStr s \<Rightarrow>
                 (case base64Pattern s of
                    Some (scheme, base64String) \<Rightarrow>
                      (let nodeType = nodeTypeMap scheme;
                           decoded = Base64_decode base64String
                       in case nodeType of
                            Some Shadowsocks \<Rightarrow> ([], decodeShadowsocks node decoded)
                          | Some Vmess \<Rightarrow> ([], Inr node)
                          | _ \<Rightarrow> ([unsupportedSchemeMessage], Inr node))
                  | None \<Rightarrow> ([''Invalid base64 format''], Inl InvalidBase64Format))
             | _ \<Rightarrow> ([], Inl (NotAFunction ''match'')))
          else ([], Inr node))"

section \<open>Guard, dispatch and post-processing\<close>

text \<open>Lines 116 to 129: three truthiness tests, in this order.\<close>

definition deprecatedGuard :: "jsval \<Rightarrow> error + unit" where
  "deprecatedGuard node =
     andThen (getProp node ''udp-relay'') (\<lambda>a.
       if truthy a then Inl (Deprecated ''udp-relay'' ''udpRelay'')
       else andThen (getProp node ''obfs-host'') (\<lambda>b.
         if truthy b then Inl (Deprecated ''obfs-host'' ''obfsHost'')
         else andThen (getProp node ''obfs-uri'') (\<lambda>c.
           if truthy c then Inl (Deprecated ''obfs-uri'' ''obfsUri'')
           else Inr ())))"

text \<open>
  Lines 131 to 173. The validators are imported from \<open>../validators\<close>, which is not
  among the sources: they are the parameter \<open>V\<close>, one per member of the enumeration,
  each returning the parsed configuration or throwing. A parsed configuration is a
  value of its own: the assignments that lines 175 to 222 make to it do not reach
  the descriptor it was parsed from, nor any other descriptor of the list.
\<close>

type_synonym validators = "NodeTypeEnum \<Rightarrow> jsval \<Rightarrow> error + jsval"

definition validate :: "validators \<Rightarrow> jsval \<Rightarrow> jsval \<Rightarrow> error + jsval" where
  "validate V type node =
     (case typeTag type of
        Some t \<Rightarrow> V t node
      | None \<Rightarrow> Inl (UnrecognizedNodeType type))"

text \<open>Lines 175 to 177, with \<open>this.underlyingProxy\<close> an optional string.\<close>

definition fillUnderlyingProxy :: "string option \<Rightarrow> jsval \<Rightarrow> error + jsval" where
  "fillUnderlyingProxy underlyingProxy parsedNode =
     (if truthy (strOrUndefined underlyingProxy) then
        andThen (getProp parsedNode ''underlyingProxy'') (\<lambda>own.
          if \<not> truthy own
          then setProp parsedNode ''underlyingProxy'' (strOrUndefined underlyingProxy)
          else Inr parsedNode)
      else Inr parsedNode)"

text \<open>Lines 192 to 223, one definition per \<open>if\<close> statement.\<close>

definition copyHostToSni :: "jsval \<Rightarrow> error + jsval" where
  "copyHostToSni node =
     andThen (getProp node ''host'') (\<lambda>host.
       if truthy host then setProp node ''sni'' host else Inr node)"

definition relocateWsHeaders :: "jsval \<Rightarrow> error + jsval" where
  "relocateWsHeaders node =
     andThen (getProp node ''wsHeaders'') (\<lambda>wsHeaders.
       if truthy wsHeaders then
         andThen (getProp node ''wsOpts'') (\<lambda>wsOpts.
           if \<not> truthy wsOpts then
             andThen (getProp node ''path'') (\<lambda>path.
               setProp node ''wsOpts''
                 (JObj [(''headers'', wsHeaders),
                        (''path'', if truthy path then path else JStr ''/'')]))
           else
             andThen (getProp wsOpts ''headers'') (\<lambda>headers.
               if truthy headers then Inl WsHeadersConflict
               else andThen (setProp wsOpts ''headers'' wsHeaders) (\<lambda>wsOpts'.
                      setProp node ''wsOpts'' wsOpts')))
       else Inr node)"

definition rejectPath :: "string \<Rightarrow> string \<Rightarrow> jsval \<Rightarrow> error + jsval" where
  "rejectPath network target node =
     andThen (getProp node ''network'') (\<lambda>n.
       if n = JStr network then
         andThen (getProp node ''path'') (\<lambda>path.
           if truthy path then Inl (MovePathTo target) else Inr node)
       else Inr node)"

definition prepareVmessNodeConfig :: "jsval \<Rightarrow> error + jsval" where
  "prepareVmessNodeConfig node =
     andThen (copyHostToSni node) (\<lambda>node.
     andThen (relocateWsHeaders node) (\<lambda>node.
     andThen (rejectPath ''ws'' ''wsOpts.path'' node) (\<lambda>node.
     andThen (rejectPath ''h2'' ''h2Opts.path'' node) (\<lambda>node.
     rejectPath ''http'' ''httpOpts.path'' node))))"

section \<open>The batch\<close>

text \<open>The body of the \<open>try\<close> block after the decoder, lines 114 to 183.\<close>

definition parseNode :: "validators \<Rightarrow> string option \<Rightarrow> jsval \<Rightarrow> error + jsval" where
  "parseNode V underlyingProxy node =
     andThen (getProp node ''type'') (\<lambda>type.
     andThen (deprecatedGuard node) (\<lambda>_.
     andThen (validate V type node) (\<lambda>parsedNode.
     andThen (fillUnderlyingProxy underlyingProxy parsedNode) (\<lambda>parsedNode.
     andThen (getProp parsedNode ''type'') (\<lambda>parsedType.
       if parsedType = JStr (enumValue Vmess) then prepareVmessNodeConfig parsedNode
       else Inr parsedNode)))))"

definition processNode ::
  "validators \<Rightarrow> string option \<Rightarrow> jsval \<Rightarrow> string list \<times> (error + jsval)" where
  "processNode V underlyingProxy node =
     (case decodeEnvelope node of
        (printed, Inl e) \<Rightarrow> (printed, Inl e)
      | (printed, Inr node') \<Rightarrow> (printed, parseNode V underlyingProxy node'))"

text \<open>
  What the callback writes with \<open>console.error\<close>: a line of the decoder, or the
  \<open>catch\<close> clause's report of an error with the index of its descriptor.
\<close>

datatype console = Printed string | ErrorParsingNode nat error

text \<open>
  \<open>nodeList.forEach((node, index) => ...)\<close>: the state is \<open>parsedNodeList\<close> and the
  console output so far. A descriptor whose processing throws pushes nothing.
\<close>

fun forEachNode ::
  "validators \<Rightarrow> string option \<Rightarrow> nat \<Rightarrow> jsval list
     \<Rightarrow> jsval list \<times> console list \<Rightarrow> jsval list \<times> console list" where
  "forEachNode V underlyingProxy index [] state = state"
| "forEachNode V underlyingProxy index (node # rest) (parsedNodeList, out) =
     (case processNode V underlyingProxy node of
        (printed, Inr parsedNode) \<Rightarrow>
          forEachNode V underlyingProxy (Suc index) rest
            (parsedNodeList @ [parsedNode], out @ map Printed printed)
      | (printed, Inl err) \<Rightarrow>
          forEachNode V underlyingProxy (Suc index) rest
            (parsedNodeList, out @ map Printed printed @ [ErrorParsingNode index err]))"

text \<open>
  The provider: \<open>nodeList\<close> is an array or a function of the parameters whose promise
  resolves to an array or rejects; \<open>underlyingProxy\<close> is an optional string, as the
  constructor's schema demands.
\<close>

datatype 'p nodeSource =
    StaticList "jsval list"
  | Supplier "'p \<Rightarrow> error + jsval list"

record 'p CustomProvider =
  nodeList :: "'p nodeSource"
  underlyingProxy :: "string option"

text \<open>
  Lines 65 to 69: a static list is taken as it is, a supplier is called with the
  parameters and awaited; its rejection leaves \<open>getNodeList\<close> before the loop.
\<close>

definition resolveNodeList :: "'p nodeSource \<Rightarrow> 'p \<Rightarrow> error + jsval list" where
  "resolveNodeList source params =
     (case source of
        StaticList nodes \<Rightarrow> Inr nodes
      | Supplier f \<Rightarrow> f params)"

definition getNodeList ::
  "validators \<Rightarrow> 'p CustomProvider \<Rightarrow> 'p \<Rightarrow> error + jsval list \<times> console list" where
  "getNodeList V this params =
     andThen (resolveNodeList (nodeList this) params) (\<lambda>nodes.
       Inr (forEachNode V (underlyingProxy this) 0 nodes ([], [])))"

text \<open>
  Modelled from the spec: the schema validators of \<open>../validators\<close> are not among the
  sources, and the spec says of them only that each checks the fields of its variant
  and returns the typed configuration. Every general theorem below holds for all
  validators. To run the batch on concrete descriptors, \<open>sampleValidators\<close> is one
  instance: each validator demands an object whose \<open>type\<close> is its own tag and whose
  \<open>nodeName\<close> is a string, and returns a copy of the object.
\<close>

definition sampleValidators :: validators where
  "sampleValidators t node =
     (case node of
        JObj kvs \<Rightarrow>
          (case (map_of kvs ''type'', map_of kvs ''nodeName'') of
             (Some (JStr ty), Some (JStr name)) \<Rightarrow>
               if ty = enumValue t then Inr node else Inl (External ''type'')
           | _ \<Rightarrow> Inl (External ''nodeName''))
      | _ \<Rightarrow> Inl (External ''object''))"

text \<open>
  The decoding of an \<open>ss\<close> payload in the words of the spec, to be compared with
  \<open>decodeShadowsocks\<close>: the payload is cut at its first \<open>@\<close> into
  \<open>method:password\<close> and \<open>host:port\<close>, and each half is cut at its first \<open>:\<close>.
\<close>

definition specShadowsocksFields :: "string \<Rightarrow> string \<times> string \<times> string \<times> string" where
  "specShadowsocksFields payload =
     (let credentials = takeWhile (\<lambda>c. c \<noteq> CHR ''@'') payload;
          address = drop 1 (dropWhile (\<lambda>c. c \<noteq> CHR ''@'') payload)
      in (takeWhile (\<lambda>c. c \<noteq> CHR '':'') credentials,
          drop 1 (dropWhile (\<lambda>c. c \<noteq> CHR '':'') credentials),
          takeWhile (\<lambda>c. c \<noteq> CHR '':'') address,
          drop 1 (dropWhile (\<lambda>c. c \<noteq> CHR '':'') address)))"

text \<open>
  The result list in the words of the spec: the parsed configurations of the
  descriptors that pass every stage, in the order of the descriptors, with nothing
  for a descriptor that fails.
\<close>

definition validatedNodes :: "validators \<Rightarrow> string option \<Rightarrow> jsval list \<Rightarrow> jsval list" where
  "validatedNodes V up nodes =
     List.map_filter
       (\<lambda>d. case snd (processNode V up d) of Inl e \<Rightarrow> None | Inr n \<Rightarrow> Some n) nodes"

section \<open>Auxiliary facts\<close>

subsection \<open>Objects\<close>

lemma field_JObj [simp]:
  "field (JObj kvs) k = (case map_of kvs k of None \<Rightarrow> JUndefined | Some v \<Rightarrow> v)"
  by (simp add: field_def)

lemma getProp_Inr_JStr_obj: "getProp node k = Inr (JStr s) \<Longrightarrow> \<exists>kvs. node = JObj kvs"
  by (cases node) auto

subsection \<open>Splitting and parsing\<close>

lemma splitStr_no_separator: "c \<notin> set a \<Longrightarrow> splitStr c a = [a]"
  by (induction a) auto

lemma splitStr_at_separator: "c \<notin> set a \<Longrightarrow> splitStr c (a @ c # r) = a # splitStr c r"
  by (induction a) auto

lemma splitStr_first: "\<exists>ws. splitStr c s = takeWhile (\<lambda>x. x \<noteq> c) s # ws"
  by (induction s) (auto split: list.splits)

lemma takeWhile_takeWhile_implied:
  "(\<And>x. Q x \<Longrightarrow> P x) \<Longrightarrow> takeWhile Q (takeWhile P s) = takeWhile Q s"
  by (induction s) auto

lemma colon_facts:
  "\<not> isDigit CHR '':''" "w \<in> set strWhiteSpace \<Longrightarrow> CHR '':'' \<notin> set w"
  by (auto simp: isDigit_def strWhiteSpace_def)

lemma startsWith_takeWhile:
  "c \<notin> set w \<Longrightarrow> startsWith (takeWhile (\<lambda>x. x \<noteq> c) s) w = startsWith s w"
proof (induction w arbitrary: s)
  case Nil
  show ?case by (simp add: startsWith_def)
next
  case (Cons a w)
  then show ?case
    by (cases s) (auto simp: startsWith_def)
qed

lemma drop_takeWhile_startsWith:
  "c \<notin> set w \<Longrightarrow> startsWith s w \<Longrightarrow>
     drop (length w) (takeWhile (\<lambda>x. x \<noteq> c) s) = takeWhile (\<lambda>x. x \<noteq> c) (drop (length w) s)"
proof (induction w arbitrary: s)
  case Nil
  show ?case by simp
next
  case (Cons a w)
  then show ?case
    by (cases s) (auto simp: startsWith_def)
qed

lemma skipWhiteSpace_up_to_colon:
  "skipWhiteSpace (takeWhile (\<lambda>x. x \<noteq> CHR '':'') s)
     = takeWhile (\<lambda>x. x \<noteq> CHR '':'') (skipWhiteSpace s)"
proof (induction s rule: skipWhiteSpace.induct)
  case (1 s)
  have f: "find (startsWith (takeWhile (\<lambda>x. x \<noteq> CHR '':'') s)) strWhiteSpace
             = find (startsWith s) strWhiteSpace"
    by (rule find_cong) (simp_all add: startsWith_takeWhile colon_facts)
  show ?case
  proof (cases "find (startsWith s) strWhiteSpace")
    case None
    with f show ?thesis
      by (simp add: skipWhiteSpace.simps [of s]
                    skipWhiteSpace.simps [of "takeWhile (\<lambda>x. x \<noteq> CHR '':'') s"])
  next
    case (Some w)
    then have w: "w \<in> set strWhiteSpace" "startsWith s w"
      by (auto simp: find_Some_iff)
    have d: "drop (length w) (takeWhile (\<lambda>x. x \<noteq> CHR '':'') s)
               = takeWhile (\<lambda>x. x \<noteq> CHR '':'') (drop (length w) s)"
      by (rule drop_takeWhile_startsWith [OF colon_facts(2) [OF w(1)] w(2)])
    from "1.IH" [OF Some] f Some d show ?thesis
      by (simp add: skipWhiteSpace.simps [of s]
                    skipWhiteSpace.simps [of "takeWhile (\<lambda>x. x \<noteq> CHR '':'') s"])
  qed
qed

lemma signedDigits_up_to_colon:
  "signedDigits (takeWhile (\<lambda>x. x \<noteq> CHR '':'') t) = signedDigits t"
proof (cases t)
  case Nil
  then show ?thesis by simp
next
  case (Cons x xs)
  have dg: "\<And>u. takeWhile isDigit (takeWhile (\<lambda>x. x \<noteq> CHR '':'') u) = takeWhile isDigit u"
    by (rule takeWhile_takeWhile_implied) (use colon_facts in auto)
  show ?thesis
  proof (cases "x = CHR '':''")
    case True
    with Cons show ?thesis by (simp add: signedDigits_def colon_facts)
  next
    case False
    with Cons show ?thesis by (simp add: signedDigits_def dg)
  qed
qed

lemma parseInt_up_to_colon:
  "parseInt (Some (takeWhile (\<lambda>x. x \<noteq> CHR '':'') s)) = parseInt (Some s)"
  by (simp add: parseInt_def skipWhiteSpace_up_to_colon signedDigits_up_to_colon)

subsection \<open>The decoder\<close>

lemma base64Pattern_scheme:
  "base64Pattern s = Some (scheme, payload) \<Longrightarrow> scheme = ''ss'' \<or> scheme = ''vmess''"
  by (auto simp: base64Pattern_def split: option.splits)

lemma base64Pattern_not_empty: "base64Pattern s = Some r \<Longrightarrow> s \<noteq> []"
  by (auto simp: base64Pattern_def stripPrefix_def)

lemma decodeEnvelope_printed:
  "set (fst (decodeEnvelope node)) \<subseteq> {''Invalid base64 format''}"
  by (auto simp: decodeEnvelope_def nodeTypeMap_def
           split: sum.splits jsval.splits option.splits NodeTypeEnum.splits
           dest!: base64Pattern_scheme)

lemma processNode_printed: "fst (processNode V up node) = fst (decodeEnvelope node)"
  by (simp add: processNode_def split: prod.splits sum.splits)

lemma decodeEnvelope_ss:
  assumes env: "getProp node ''base64'' = Inr (JStr envelope)"
    and pat: "base64Pattern envelope = Some (''ss'', base64String)"
  shows "decodeEnvelope node = ([], decodeShadowsocks node (Base64_decode base64String))"
  using assms base64Pattern_not_empty [OF pat]
  by (simp add: decodeEnvelope_def nodeTypeMap_def)

text \<open>
  A payload that is not well-formed UTF-8: the byte A0 before the digits of the port is
  read as U+FFFD, which is neither white space nor a digit, so the port is \<open>NaN\<close>.
\<close>

lemma decodeEnvelope_ill_formed_payload:
  "decodeEnvelope (JObj [(''base64'', JStr ''ss://bTpwQGg6oDQ0Mw=='')])
     = ([], Inr (JObj [(''base64'', JStr ''ss://bTpwQGg6oDQ0Mw==''),
                       (''type'', JStr ''shadowsocks''),
                       (''hostname'', JStr ''h''),
                       (''port'', JNaN),
                       (''method'', JStr ''m''),
                       (''password'', JStr ''p'')]))"
  by code_simp

lemma decodeShadowsocks_well_formed:
  assumes "CHR '':'' \<notin> set method" "CHR '':'' \<notin> set password" "CHR ''@'' \<notin> set password"
      "CHR '':'' \<notin> set hostname" "CHR ''@'' \<notin> set hostname"
  shows "decodeShadowsocks node (method @ '':'' @ password @ ''@'' @ hostname @ '':'' @ port) =
     Inr (JObj
           (AList.update ''password'' (JStr password)
           (AList.update ''method'' (JStr method)
           (AList.update ''port'' (parseInt (Some port))
           (AList.update ''hostname'' (JStr hostname)
           (AList.update ''type'' (JStr ''shadowsocks'')
              (spread node)))))))"
proof -
  have mid: "CHR '':'' \<notin> set (password @ CHR ''@'' # hostname)"
    using assms by simp
  obtain ws where ws: "splitStr CHR '':'' port = takeWhile (\<lambda>x. x \<noteq> CHR '':'') port # ws"
    using splitStr_first by blast
  have parts: "splitStr CHR '':'' (method @ '':'' @ password @ ''@'' @ hostname @ '':'' @ port)
                = method # (password @ CHR ''@'' # hostname)
                    # takeWhile (\<lambda>x. x \<noteq> CHR '':'') port # ws"
    using splitStr_at_separator [OF assms(1), of "(password @ CHR ''@'' # hostname) @ CHR '':'' # port"]
          splitStr_at_separator [OF mid, of port] ws
    by simp
  have pieces: "splitStr CHR ''@'' (password @ CHR ''@'' # hostname) = [password, hostname]"
    using splitStr_at_separator [OF assms(3), of hostname] splitStr_no_separator [OF assms(5)]
    by simp
  show ?thesis
    unfolding decodeShadowsocks_def parts Let_def
    by (simp add: pieces strOrUndefined_def parseInt_up_to_colon eval_nat_numeral)
qed

subsection \<open>The loop\<close>

lemma forEachNode_eq:
  "forEachNode V up i nodes (acc, out) =
     (acc @ List.map_filter
              (\<lambda>d. case snd (processNode V up d) of Inl e \<Rightarrow> None | Inr n \<Rightarrow> Some n) nodes,
      out @ concat (map (\<lambda>(j, d). case processNode V up d of
                                   (printed, Inl e) \<Rightarrow> map Printed printed @ [ErrorParsingNode j e]
                                 | (printed, Inr n) \<Rightarrow> map Printed printed)
                        (enumerate i nodes)))"
proof (induction nodes arbitrary: i acc out)
  case Nil
  show ?case by simp
next
  case (Cons d ds)
  obtain printed r where p: "processNode V up d = (printed, r)"
    by (cases "processNode V up d")
  show ?case
  proof (cases r)
    case (Inl e)
    with p Cons.IH show ?thesis by simp
  next
    case (Inr n)
    with p Cons.IH show ?thesis by simp
  qed
qed

lemma map_filter_append_eq:
  "List.map_filter f (xs @ ys) = List.map_filter f xs @ List.map_filter f ys"
  by (simp add: map_filter_def)

lemma getNodeList_drops_failure:
  assumes res: "resolveNodeList (nodeList this) params = Inr (pre @ d # post)"
    and fail: "snd (processNode V (underlyingProxy this) d) = Inl e"
  shows "\<exists>out. getNodeList V this params
                 = Inr (validatedNodes V (underlyingProxy this) pre
                          @ validatedNodes V (underlyingProxy this) post, out)
               \<and> ErrorParsingNode (length pre) e \<in> set out"
proof -
  obtain printed where p: "processNode V (underlyingProxy this) d = (printed, Inl e)"
    using fail by (cases "processNode V (underlyingProxy this) d") auto
  have en: "enumerate 0 (pre @ d # post)
              = enumerate 0 pre @ (length pre, d) # enumerate (Suc (length pre)) post"
    by (simp add: enumerate_append_eq)
  have v: "List.map_filter
             (\<lambda>d. case snd (processNode V (underlyingProxy this) d) of
                     Inl e \<Rightarrow> None | Inr n \<Rightarrow> Some n) (pre @ d # post)
           = validatedNodes V (underlyingProxy this) pre
               @ validatedNodes V (underlyingProxy this) post"
    using p by (simp add: validatedNodes_def map_filter_append_eq)
  show ?thesis
    using res p
    by (simp add: getNodeList_def andThen_def forEachNode_eq en v)
qed

lemma getNodeList_console:
  assumes "getNodeList V this params = Inr (parsed, out)"
    and "Printed m \<in> set out"
  shows "\<exists>node. m \<in> set (fst (decodeEnvelope node))"
proof -
  obtain nodes where n: "resolveNodeList (nodeList this) params = Inr nodes"
    using assms(1) by (cases "resolveNodeList (nodeList this) params")
                       (auto simp: getNodeList_def andThen_def)
  have "out = concat (map (\<lambda>(j, d). case processNode V (underlyingProxy this) d of
                                   (printed, Inl e) \<Rightarrow> map Printed printed @ [ErrorParsingNode j e]
                                 | (printed, Inr n) \<Rightarrow> map Printed printed)
                        (enumerate 0 nodes))"
    using assms(1) n by (simp add: getNodeList_def andThen_def forEachNode_eq)
  with assms(2) obtain j d where
    "Printed m \<in> set (case processNode V (underlyingProxy this) d of
                                   (printed, Inl e) \<Rightarrow> map Printed printed @ [ErrorParsingNode j e]
                                 | (printed, Inr n) \<Rightarrow> map Printed printed)"
    by auto
  then have "m \<in> set (fst (processNode V (underlyingProxy this) d))"
    by (cases "processNode V (underlyingProxy this) d";
        cases "snd (processNode V (underlyingProxy this) d)") auto
  then show ?thesis
    by (auto simp: processNode_printed)
qed

subsection \<open>Guard and dispatch\<close>

lemma field_truthy_obj: "truthy (field d k) \<Longrightarrow> \<exists>kvs. d = JObj kvs"
  by (cases d) (simp_all add: field_def)

lemma field_JStr_obj: "field d k = JStr s \<Longrightarrow> \<exists>kvs. d = JObj kvs"
  by (cases d) (simp_all add: field_def)

lemma getProp_JObj: "getProp (JObj kvs) k = Inr (field (JObj kvs) k)"
  by simp

lemma decodeShadowsocks_keeps_fields:
  assumes "decodeShadowsocks (JObj kvs) decoded = Inr d"
    and "k \<notin> {''type'', ''hostname'', ''port'', ''method'', ''password''}"
  shows "field d k = field (JObj kvs) k"
  using assms
  by (auto simp: decodeShadowsocks_def Let_def update_conv' split: option.splits)

lemma decodeEnvelope_cases:
  assumes "decodeEnvelope node = (printed, Inr d)"
  shows "d = node \<or> (\<exists>kvs decoded. node = JObj kvs \<and> decodeShadowsocks node decoded = Inr d)"
proof (cases "getProp node ''base64''")
  case (Inl e)
  with assms show ?thesis by (simp add: decodeEnvelope_def)
next
  case (Inr b)
  show ?thesis
  proof (cases "truthy b")
    case False
    with assms Inr show ?thesis by (simp add: decodeEnvelope_def)
  next
    case True
    show ?thesis
    proof (cases b)
      case (JStr s)
      then obtain kvs where k: "node = JObj kvs"
        using Inr getProp_Inr_JStr_obj by blast
      show ?thesis
      proof (cases "base64Pattern s")
        case None
        with assms Inr True JStr show ?thesis by (simp add: decodeEnvelope_def)
      next
        case (Some r)
        obtain scheme payload where r: "r = (scheme, payload)" by (cases r)
        have "scheme = ''ss'' \<or> scheme = ''vmess''"
          using Some r base64Pattern_scheme by blast
        then show ?thesis
        proof
          assume "scheme = ''ss''"
          with assms Inr True JStr Some r k show ?thesis
            by (auto simp: decodeEnvelope_def nodeTypeMap_def)
        next
          assume "scheme = ''vmess''"
          with assms Inr True JStr Some r show ?thesis
            by (simp add: decodeEnvelope_def nodeTypeMap_def)
        qed
      qed
    qed (use assms Inr True in \<open>simp_all add: decodeEnvelope_def\<close>)
  qed
qed

lemma decodeEnvelope_keeps_fields:
  assumes "decodeEnvelope node = (printed, Inr d)"
    and "k \<notin> {''type'', ''hostname'', ''port'', ''method'', ''password''}"
  shows "field d k = field node k"
  using decodeEnvelope_cases [OF assms(1)] decodeShadowsocks_keeps_fields [OF _ assms(2)]
  by auto

lemma deprecatedGuard_obj:
  "deprecatedGuard (JObj kvs) =
     (if truthy (field (JObj kvs) ''udp-relay'') then Inl (Deprecated ''udp-relay'' ''udpRelay'')
      else if truthy (field (JObj kvs) ''obfs-host'') then Inl (Deprecated ''obfs-host'' ''obfsHost'')
      else if truthy (field (JObj kvs) ''obfs-uri'') then Inl (Deprecated ''obfs-uri'' ''obfsUri'')
      else Inr ())"
  by (simp add: deprecatedGuard_def andThen_def)

lemma parseNode_deprecated:
  assumes "truthy (field d ''udp-relay'') \<or> truthy (field d ''obfs-host'')
           \<or> truthy (field d ''obfs-uri'')"
  shows "parseNode V up d =
           Inl (if truthy (field d ''udp-relay'') then Deprecated ''udp-relay'' ''udpRelay''
                else if truthy (field d ''obfs-host'') then Deprecated ''obfs-host'' ''obfsHost''
                else Deprecated ''obfs-uri'' ''obfsUri'')"
proof -
  obtain kvs where d: "d = JObj kvs"
    using assms field_truthy_obj by blast
  have g: "getProp d ''type'' = Inr (field d ''type'')"
    unfolding d by (rule getProp_JObj)
  show ?thesis
    using assms unfolding parseNode_def g
    by (auto simp: andThen_def d deprecatedGuard_obj simp del: field_JObj)
qed

lemma processNode_decoded:
  "decodeEnvelope node = (printed, Inr d) \<Longrightarrow> processNode V up node = (printed, parseNode V up d)"
  "decodeEnvelope node = (printed, Inl e) \<Longrightarrow> processNode V up node = (printed, Inl e)"
  by (simp_all add: processNode_def)

lemma fillUnderlyingProxy_obj:
  "\<exists>kvs'. fillUnderlyingProxy up (JObj kvs) = Inr (JObj kvs')
      \<and> (\<forall>k. k \<noteq> ''underlyingProxy'' \<longrightarrow> field (JObj kvs') k = field (JObj kvs) k)
      \<and> field (JObj kvs') ''underlyingProxy''
          = (if truthy (strOrUndefined up) \<and> \<not> truthy (field (JObj kvs) ''underlyingProxy'')
             then strOrUndefined up else field (JObj kvs) ''underlyingProxy'')"
  by (simp add: fillUnderlyingProxy_def andThen_def update_conv')

lemma validatedNodes_member:
  assumes "node \<in> set nodes" and "snd (processNode V up node) = Inr n"
  shows "n \<in> set (validatedNodes V up nodes)"
proof -
  have "(case snd (processNode V up node) of Inl e \<Rightarrow> None | Inr n \<Rightarrow> Some n) = Some n"
    using assms(2) by simp
  then show ?thesis
    using assms(1) unfolding validatedNodes_def map_filter_def
    by (force simp: image_iff)
qed

lemma getNodeList_validatedNodes:
  assumes "resolveNodeList (nodeList this) params = Inr nodes"
  shows "\<exists>out. getNodeList V this params = Inr (validatedNodes V (underlyingProxy this) nodes, out)"
  using assms by (simp add: getNodeList_def andThen_def forEachNode_eq validatedNodes_def)

lemma typeTag_shadowsocks: "typeTag (JStr ''shadowsocks'') = Some Shadowsocks"
  by (simp add: typeTag_def switchCases_def)

lemma parseNode_shadowsocks:
  assumes ty: "field d ''type'' = JStr ''shadowsocks''"
    and guard: "deprecatedGuard d = Inr ()"
    and valid: "V Shadowsocks d = Inr parsedNode"
    and pty: "field parsedNode ''type'' = JStr ''shadowsocks''"
  shows "\<exists>n. parseNode V up d = Inr n
           \<and> (\<forall>k. k \<noteq> ''underlyingProxy'' \<longrightarrow> field n k = field parsedNode k)"
proof -
  obtain kvs where d: "d = JObj kvs"
    using ty field_JStr_obj by blast
  obtain pkvs where p: "parsedNode = JObj pkvs"
    using pty field_JStr_obj by blast
  obtain kvs' where f: "fillUnderlyingProxy up (JObj pkvs) = Inr (JObj kvs')"
      "\<forall>k. k \<noteq> ''underlyingProxy'' \<longrightarrow> field (JObj kvs') k = field (JObj pkvs) k"
    using fillUnderlyingProxy_obj [of up pkvs] by blast
  have t: "field (JObj kvs') ''type'' = JStr ''shadowsocks''"
    using f(2) pty p by simp
  have g1: "getProp d ''type'' = Inr (JStr ''shadowsocks'')"
    using ty unfolding d getProp_JObj by simp
  have g2: "getProp (JObj kvs') ''type'' = Inr (JStr ''shadowsocks'')"
    using t unfolding getProp_JObj by simp
  have "parseNode V up d = Inr (JObj kvs')"
    unfolding parseNode_def g1
    using guard valid f(1) g2
    by (simp add: andThen_def validate_def typeTag_shadowsocks p)
  with f(2) p show ?thesis by blast
qed

lemma ss_example_decoded:
  "base64Pattern ''ss://YWVzLTI1Ni1nY206c2VjcmV0QGV4YW1wbGUuY29tOjgzODg=''
     = Some (''ss'', ''YWVzLTI1Ni1nY206c2VjcmV0QGV4YW1wbGUuY29tOjgzODg='')"
  "Base64_decode ''YWVzLTI1Ni1nY206c2VjcmV0QGV4YW1wbGUuY29tOjgzODg=''
     = ''aes-256-gcm'' @ '':'' @ ''secret'' @ ''@'' @ ''example.com'' @ '':'' @ ''8388''"
  "parseInt (Some ''8388'') = JNum 8388"
  by code_simp+

subsection \<open>Post-processing\<close>

lemma setProp_field:
  "setProp node k x = Inr n \<Longrightarrow> field n k' = (if k' = k then x else field node k')"
  by (cases node) (auto simp: update_conv')

lemma getProp_Inr_field: "getProp node k = Inr v \<Longrightarrow> field node k = v"
  by (simp add: field_def)

lemma copyHostToSni_Inr:
  assumes "copyHostToSni node = Inr n"
  shows "field n k = (if k = ''sni'' \<and> truthy (field node ''host'') then field node ''host''
                      else field node k)"
proof (cases "getProp node ''host''")
  case (Inl e)
  with assms show ?thesis by (simp add: copyHostToSni_def andThen_def)
next
  case (Inr host)
  then have h: "field node ''host'' = host" by (rule getProp_Inr_field)
  show ?thesis
  proof (cases "truthy host")
    case True
    with assms Inr have "setProp node ''sni'' host = Inr n"
      by (simp add: copyHostToSni_def andThen_def)
    from setProp_field [OF this, of k] True h show ?thesis by simp
  next
    case False
    with assms Inr h show ?thesis by (simp add: copyHostToSni_def andThen_def)
  qed
qed

lemma copyHostToSni_obj: "\<exists>kvs'. copyHostToSni (JObj kvs) = Inr (JObj kvs')"
  by (simp add: copyHostToSni_def andThen_def)

lemma relocateWsHeaders_obj:
  "relocateWsHeaders (JObj kvs) =
     (let wsHeaders = field (JObj kvs) ''wsHeaders'';
          wsOpts = field (JObj kvs) ''wsOpts'';
          path = field (JObj kvs) ''path''
      in if truthy wsHeaders then
           if \<not> truthy wsOpts then
             Inr (JObj (AList.update ''wsOpts''
                          (JObj [(''headers'', wsHeaders),
                                 (''path'', if truthy path then path else JStr ''/'')]) kvs))
           else if truthy (field wsOpts ''headers'') then Inl WsHeadersConflict
           else andThen (setProp wsOpts ''headers'' wsHeaders)
                  (\<lambda>wsOpts'. Inr (JObj (AList.update ''wsOpts'' wsOpts' kvs)))
         else Inr (JObj kvs))"
proof -
  have g: "\<And>v. truthy v \<Longrightarrow> getProp v ''headers'' = Inr (field v ''headers'')"
    by (case_tac v) (simp_all add: field_def)
  show ?thesis
    by (simp add: relocateWsHeaders_def andThen_def Let_def g getProp_JObj
             del: field_JObj getProp.simps(3) split: sum.splits)
qed

lemma relocateWsHeaders_Inr:
  assumes "relocateWsHeaders node = Inr n" and "k \<noteq> ''wsOpts''"
  shows "field n k = field node k"
proof (cases node)
  case (JObj kvs)
  show ?thesis
    using assms unfolding JObj relocateWsHeaders_obj Let_def
    by (auto simp: andThen_def update_conv' split: if_splits sum.splits)
qed (use assms in \<open>auto simp: relocateWsHeaders_def andThen_def\<close>)

lemma rejectPath_obj:
  "rejectPath network target (JObj kvs) =
     (if field (JObj kvs) ''network'' = JStr network \<and> truthy (field (JObj kvs) ''path'')
      then Inl (MovePathTo target) else Inr (JObj kvs))"
  by (simp add: rejectPath_def andThen_def)

lemma rejectPath_Inr: "rejectPath network target node = Inr n \<Longrightarrow> n = node"
  by (cases node) (auto simp: rejectPath_def andThen_def split: if_splits)

lemma prepareVmessNodeConfig_Inr:
  assumes "prepareVmessNodeConfig node = Inr n"
  shows "\<exists>n1. copyHostToSni node = Inr n1 \<and> relocateWsHeaders n1 = Inr n"
proof -
  from assms obtain n1 where a: "copyHostToSni node = Inr n1"
    by (cases "copyHostToSni node") (auto simp: prepareVmessNodeConfig_def andThen_def)
  from assms a obtain n2 where b: "relocateWsHeaders n1 = Inr n2"
    by (cases "relocateWsHeaders n1") (auto simp: prepareVmessNodeConfig_def andThen_def)
  from assms a b obtain n3 where c: "rejectPath ''ws'' ''wsOpts.path'' n2 = Inr n3"
    by (cases "rejectPath ''ws'' ''wsOpts.path'' n2")
       (auto simp: prepareVmessNodeConfig_def andThen_def)
  from assms a b c obtain n4 where d: "rejectPath ''h2'' ''h2Opts.path'' n3 = Inr n4"
    by (cases "rejectPath ''h2'' ''h2Opts.path'' n3")
       (auto simp: prepareVmessNodeConfig_def andThen_def)
  from assms a b c d have e: "rejectPath ''http'' ''httpOpts.path'' n4 = Inr n"
    by (simp add: prepareVmessNodeConfig_def andThen_def)
  have "n = n2"
    using rejectPath_Inr [OF c] rejectPath_Inr [OF d] rejectPath_Inr [OF e] by simp
  with a b show ?thesis by blast
qed

lemma prepareVmessNodeConfig_keeps:
  assumes "prepareVmessNodeConfig node = Inr n" and "k \<noteq> ''wsOpts''"
  shows "field n k = (if k = ''sni'' \<and> truthy (field node ''host'') then field node ''host''
                      else field node k)"
proof -
  obtain n1 where a: "copyHostToSni node = Inr n1" and b: "relocateWsHeaders n1 = Inr n"
    using prepareVmessNodeConfig_Inr [OF assms(1)] by blast
  show ?thesis
    using relocateWsHeaders_Inr [OF b assms(2)] copyHostToSni_Inr [OF a, of k] by simp
qed

lemma relocateWsHeaders_obj_Inr:
  "relocateWsHeaders (JObj kvs) = Inr n \<Longrightarrow> \<exists>kvs'. n = JObj kvs'"
  unfolding relocateWsHeaders_obj Let_def
  by (auto simp: andThen_def split: if_splits sum.splits)

lemma relocateWsHeaders_same_error:
  assumes "field (JObj a) ''wsHeaders'' = field (JObj b) ''wsHeaders''"
    and "field (JObj a) ''wsOpts'' = field (JObj b) ''wsOpts''"
  shows "relocateWsHeaders (JObj a) = Inl e \<longleftrightarrow> relocateWsHeaders (JObj b) = Inl e"
  unfolding relocateWsHeaders_obj Let_def assms
  by (auto simp: andThen_def split: sum.splits)

lemma rejectPath_chain:
  assumes net: "field (JObj kvs) ''network'' = JStr network"
    and tgt: "(network, target) \<in> {(''ws'', ''wsOpts.path''), (''h2'', ''h2Opts.path''),
                                   (''http'', ''httpOpts.path'')}"
    and path: "truthy (field (JObj kvs) ''path'')"
  shows "andThen (rejectPath ''ws'' ''wsOpts.path'' (JObj kvs)) (\<lambda>node.
         andThen (rejectPath ''h2'' ''h2Opts.path'' node) (\<lambda>node.
         rejectPath ''http'' ''httpOpts.path'' node)) = Inl (MovePathTo target)"
  using assms unfolding rejectPath_obj
  by (auto simp: andThen_def rejectPath_obj simp del: field_JObj)


lemma prepareVmessNodeConfig_path:
  assumes net: "field node ''network'' = JStr network"
    and tgt: "(network, target) \<in> {(''ws'', ''wsOpts.path''), (''h2'', ''h2Opts.path''),
                                   (''http'', ''httpOpts.path'')}"
    and path: "truthy (field node ''path'')"
  shows "prepareVmessNodeConfig node =
           (case relocateWsHeaders node of
              Inl e \<Rightarrow> Inl e
            | Inr n \<Rightarrow> Inl (MovePathTo target))"
proof -
  obtain kvs where node: "node = JObj kvs"
    using net by (cases node) (simp_all add: field_def)
  obtain kvs1 where c: "copyHostToSni node = Inr (JObj kvs1)"
    unfolding node using copyHostToSni_obj by blast
  have same: "field (JObj kvs1) ''wsHeaders'' = field (JObj kvs) ''wsHeaders''"
       "field (JObj kvs1) ''wsOpts'' = field (JObj kvs) ''wsOpts''"
       "field (JObj kvs1) ''network'' = field (JObj kvs) ''network''"
       "field (JObj kvs1) ''path'' = field (JObj kvs) ''path''"
    using copyHostToSni_Inr [OF c] unfolding node by simp_all
  show ?thesis
  proof (cases "relocateWsHeaders (JObj kvs1)")
    case (Inl e)
    then have "relocateWsHeaders (JObj kvs) = Inl e"
      using relocateWsHeaders_same_error [OF same(1,2)] by simp
    with Inl c show ?thesis
      by (simp add: prepareVmessNodeConfig_def andThen_def node)
  next
    case (Inr n2)
    then obtain kvs2 where n2: "n2 = JObj kvs2"
      using relocateWsHeaders_obj_Inr by blast
    have f2: "field (JObj kvs2) ''network'' = JStr network" "truthy (field (JObj kvs2) ''path'')"
      using relocateWsHeaders_Inr [OF Inr, of "''network''"]
            relocateWsHeaders_Inr [OF Inr, of "''path''"] same net path
      unfolding n2 node by simp_all
    have "\<exists>n. relocateWsHeaders (JObj kvs) = Inr n"
    proof (cases "relocateWsHeaders (JObj kvs)")
      case (Inl e)
      then have "relocateWsHeaders (JObj kvs1) = Inl e"
        using relocateWsHeaders_same_error [OF same(1,2)] by simp
      with Inr show ?thesis by simp
    qed simp
    then obtain n where n: "relocateWsHeaders (JObj kvs) = Inr n" by blast
    have "prepareVmessNodeConfig node = Inl (MovePathTo target)"
      using c Inr rejectPath_chain [OF f2(1) tgt f2(2)]
      by (simp add: prepareVmessNodeConfig_def andThen_def n2)
    with n show ?thesis by (simp add: node)
  qed
qed

lemma getProp_total: "getProp node k = Inr v \<Longrightarrow> getProp node k' = Inr (field node k')"
  by (cases node) (simp_all add: field_def)

lemma deprecatedGuard_Inr: "deprecatedGuard node = Inr u \<Longrightarrow> \<exists>v. getProp node ''udp-relay'' = Inr v"
  by (cases "getProp node ''udp-relay''") (simp_all add: deprecatedGuard_def andThen_def)

lemma parseNode_validated:
  assumes guard: "deprecatedGuard d = Inr ()"
    and valid: "validate V (field d ''type'') d = Inr (JObj p)"
  shows "\<exists>p'. fillUnderlyingProxy up (JObj p) = Inr (JObj p')
           \<and> (\<forall>k. k \<noteq> ''underlyingProxy'' \<longrightarrow> field (JObj p') k = field (JObj p) k)
           \<and> field (JObj p') ''underlyingProxy''
               = (if truthy (strOrUndefined up) \<and> \<not> truthy (field (JObj p) ''underlyingProxy'')
                  then strOrUndefined up else field (JObj p) ''underlyingProxy'')
           \<and> parseNode V up d
               = (if field (JObj p) ''type'' = JStr ''vmess''
                  then prepareVmessNodeConfig (JObj p') else Inr (JObj p'))"
proof -
  obtain v where "getProp d ''udp-relay'' = Inr v"
    using deprecatedGuard_Inr [OF guard] by blast
  then have t: "getProp d ''type'' = Inr (field d ''type'')"
    by (rule getProp_total)
  obtain p' where f: "fillUnderlyingProxy up (JObj p) = Inr (JObj p')"
      "\<forall>k. k \<noteq> ''underlyingProxy'' \<longrightarrow> field (JObj p') k = field (JObj p) k"
      "field (JObj p') ''underlyingProxy''
               = (if truthy (strOrUndefined up) \<and> \<not> truthy (field (JObj p) ''underlyingProxy'')
                  then strOrUndefined up else field (JObj p) ''underlyingProxy'')"
    using fillUnderlyingProxy_obj [of up p] by blast
  have ty: "field (JObj p') ''type'' = field (JObj p) ''type''"
    using f(2) by simp
  have "parseNode V up d
               = (if field (JObj p) ''type'' = JStr ''vmess''
                  then prepareVmessNodeConfig (JObj p') else Inr (JObj p'))"
    unfolding parseNode_def t
    using guard valid f(1) ty
    by (simp add: andThen_def getProp_JObj del: field_JObj getProp.simps(3))
  with f show ?thesis by blast
qed





section \<open>The batch orchestrator\<close>

text \<open>
  C1. Whether the provider holds a static list or a supplier that resolved to one,
  \<open>getNodeList\<close> returns exactly the parsed configurations of the descriptors whose
  processing did not throw, in the order of their descriptors and with nothing in
  the place of a failed one; the console shows, descriptor by descriptor, what the
  decoder printed and, for a failed descriptor, its error with its index. Both lists
  are assembled from the outcome of each descriptor alone, so a failure neither ends
  the batch nor touches another descriptor.
\<close>

theorem getNodeList_batch:
  assumes "resolveNodeList (nodeList this) params = Inr nodes"
  shows "getNodeList V this params =
           Inr (List.map_filter
                  (\<lambda>d. case snd (processNode V (underlyingProxy this) d) of
                          Inl e \<Rightarrow> None | Inr n \<Rightarrow> Some n) nodes,
                concat (map (\<lambda>(j, d). case processNode V (underlyingProxy this) d of
                                   (printed, Inl e) \<Rightarrow> map Printed printed @ [ErrorParsingNode j e]
                                 | (printed, Inr n) \<Rightarrow> map Printed printed)
                        (enumerate 0 nodes)))"
  using assms by (simp add: getNodeList_def andThen_def forEachNode_eq)

theorem getNodeList_batch_witness:
  "resolveNodeList
     (nodeList \<lparr>nodeList = Supplier (\<lambda>n. if n = 0 then Inl (External ''offline'') else
                 Inr [JObj [(''type'', JStr ''trojan''), (''nodeName'', JStr ''a'')],
                      JNull,
                      JObj [(''type'', JStr ''wireguard'')],
                      JObj [(''type'', JStr ''snell''), (''nodeName'', JStr ''b'')]]),
               underlyingProxy = None\<rparr>) (1::nat)
     = Inr [JObj [(''type'', JStr ''trojan''), (''nodeName'', JStr ''a'')],
            JNull,
            JObj [(''type'', JStr ''wireguard'')],
            JObj [(''type'', JStr ''snell''), (''nodeName'', JStr ''b'')]]
   \<and> getNodeList sampleValidators
        \<lparr>nodeList = Supplier (\<lambda>n. if n = 0 then Inl (External ''offline'') else
                 Inr [JObj [(''type'', JStr ''trojan''), (''nodeName'', JStr ''a'')],
                      JNull,
                      JObj [(''type'', JStr ''wireguard'')],
                      JObj [(''type'', JStr ''snell''), (''nodeName'', JStr ''b'')]]),
         underlyingProxy = None\<rparr> (1::nat)
     = Inr ([JObj [(''type'', JStr ''trojan''), (''nodeName'', JStr ''a'')],
             JObj [(''type'', JStr ''snell''), (''nodeName'', JStr ''b'')]],
            [ErrorParsingNode 1 (CannotReadProperty ''base64''),
             ErrorParsingNode 2 (External ''nodeName'')])"
proof -
  let ?nodes = "[JObj [(''type'', JStr ''trojan''), (''nodeName'', JStr ''a'')],
                  JNull,
                  JObj [(''type'', JStr ''wireguard'')],
                  JObj [(''type'', JStr ''snell''), (''nodeName'', JStr ''b'')]]"
  let ?prov = "\<lparr>nodeList = Supplier (\<lambda>n. if n = 0 then Inl (External ''offline'') else Inr ?nodes),
               underlyingProxy = None\<rparr> :: nat CustomProvider"
  have h: "resolveNodeList (nodeList ?prov) (1::nat) = Inr ?nodes"
    by (simp add: resolveNodeList_def)
  have v: "List.map_filter
             (\<lambda>d. case snd (processNode sampleValidators (underlyingProxy ?prov) d) of
                     Inl e \<Rightarrow> None | Inr n \<Rightarrow> Some n) ?nodes
           = [JObj [(''type'', JStr ''trojan''), (''nodeName'', JStr ''a'')],
              JObj [(''type'', JStr ''snell''), (''nodeName'', JStr ''b'')]]"
    by code_simp
  have c: "concat (map (\<lambda>(j, d). case processNode sampleValidators (underlyingProxy ?prov) d of
                                   (printed, Inl e) \<Rightarrow> map Printed printed @ [ErrorParsingNode j e]
                                 | (printed, Inr n) \<Rightarrow> map Printed printed)
                        (enumerate 0 ?nodes))
           = [ErrorParsingNode 1 (CannotReadProperty ''base64''),
              ErrorParsingNode 2 (External ''nodeName'')]"
    by code_simp
  have r: "getNodeList sampleValidators ?prov (1::nat)
     = Inr ([JObj [(''type'', JStr ''trojan''), (''nodeName'', JStr ''a'')],
             JObj [(''type'', JStr ''snell''), (''nodeName'', JStr ''b'')]],
            [ErrorParsingNode 1 (CannotReadProperty ''base64''),
             ErrorParsingNode 2 (External ''nodeName'')])"
    using getNodeList_batch [OF h, of sampleValidators] unfolding v c .
  show ?thesis
    by (rule conjI [OF h r])
qed

section \<open>The legacy envelope decoder\<close>

text \<open>
  C2, as the spec words it, fails: the code does not cut the payload at its first
  \<open>@\<close>. It splits at every \<open>:\<close> and only then splits the second piece at
  \<open>@\<close>. For the payload \<open>aes-256-gcm:pa:ss@example.com:8388\<close>, whose password
  holds a colon, the spec's procedure finds host \<open>example.com\<close> and port \<open>8388\<close>,
  while the code yields an undefined hostname, the port \<open>NaN\<close> and the password
  \<open>pa\<close>.
\<close>

theorem decodeEnvelope_ss_split_counterexample:
  "Base64_decode ''YWVzLTI1Ni1nY206cGE6c3NAZXhhbXBsZS5jb206ODM4OA==''
     = ''aes-256-gcm:pa:ss@example.com:8388''
   \<and> specShadowsocksFields ''aes-256-gcm:pa:ss@example.com:8388''
     = (''aes-256-gcm'', ''pa:ss'', ''example.com'', ''8388'')
   \<and> decodeEnvelope
       (JObj [(''base64'', JStr ''ss://YWVzLTI1Ni1nY206cGE6c3NAZXhhbXBsZS5jb206ODM4OA=='')])
     = ([], Inr (JObj [(''base64'', JStr ''ss://YWVzLTI1Ni1nY206cGE6c3NAZXhhbXBsZS5jb206ODM4OA==''),
                       (''type'', JStr ''shadowsocks''),
                       (''hostname'', JUndefined),
                       (''port'', JNaN),
                       (''method'', JStr ''aes-256-gcm''),
                       (''password'', JStr ''pa'')]))"
  by code_simp

text \<open>
  C2, amended. For a descriptor whose envelope matches the pattern with scheme \<open>ss\<close>
  and whose decoded payload is \<open>method:password@hostname:port\<close> with no \<open>:\<close> in
  method, password and hostname and no \<open>@\<close> in password and hostname, the decoder
  succeeds, the decoded descriptor has the Shadowsocks type tag, the three strings as
  \<open>method\<close>, \<open>password\<close> and \<open>hostname\<close> and \<open>parseInt\<close> of the port as
  \<open>port\<close>, whatever the descriptor held under these five names, and every other
  field is as it was.
\<close>

theorem decodeEnvelope_ss_fields:
  assumes env: "getProp node ''base64'' = Inr (JStr envelope)"
    and pat: "base64Pattern envelope = Some (''ss'', base64String)"
    and payload: "Base64_decode base64String
                    = method @ '':'' @ password @ ''@'' @ hostname @ '':'' @ port"
    and sep: "CHR '':'' \<notin> set method" "CHR '':'' \<notin> set password" "CHR ''@'' \<notin> set password"
             "CHR '':'' \<notin> set hostname" "CHR ''@'' \<notin> set hostname"
  shows "\<exists>d. decodeEnvelope node = ([], Inr d)
           \<and> field d ''type'' = JStr (enumValue Shadowsocks)
           \<and> field d ''method'' = JStr method
           \<and> field d ''password'' = JStr password
           \<and> field d ''hostname'' = JStr hostname
           \<and> field d ''port'' = parseInt (Some port)
           \<and> (\<forall>k. k \<notin> {''type'', ''hostname'', ''port'', ''method'', ''password''}
                  \<longrightarrow> field d k = field node k)"
proof -
  obtain kvs where node: "node = JObj kvs"
    using getProp_Inr_JStr_obj [OF env] by blast
  have "decodeEnvelope node = ([], decodeShadowsocks node (Base64_decode base64String))"
    by (rule decodeEnvelope_ss [OF env pat])
  then show ?thesis
    unfolding payload decodeShadowsocks_well_formed [OF sep] node
    by (simp add: update_conv')
qed

theorem decodeEnvelope_ss_fields_witness:
  "getProp (JObj [(''method'', JStr ''none''), (''nodeName'', JStr ''n''),
                  (''base64'', JStr ''ss://Y2hhY2hhMjA6cHdAMTAuMC4wLjE6NDQzeA==#n'')]) ''base64''
      = Inr (JStr ''ss://Y2hhY2hhMjA6cHdAMTAuMC4wLjE6NDQzeA==#n'')
   \<and> base64Pattern ''ss://Y2hhY2hhMjA6cHdAMTAuMC4wLjE6NDQzeA==#n''
      = Some (''ss'', ''Y2hhY2hhMjA6cHdAMTAuMC4wLjE6NDQzeA=='')
   \<and> Base64_decode ''Y2hhY2hhMjA6cHdAMTAuMC4wLjE6NDQzeA==''
      = ''chacha20'' @ '':'' @ ''pw'' @ ''@'' @ ''10.0.0.1'' @ '':'' @ ''443x''
   \<and> CHR '':'' \<notin> set ''chacha20'' \<and> CHR '':'' \<notin> set ''pw'' \<and> CHR ''@'' \<notin> set ''pw''
   \<and> CHR '':'' \<notin> set ''10.0.0.1'' \<and> CHR ''@'' \<notin> set ''10.0.0.1''
   \<and> parseInt (Some ''443x'') = JNum 443
   \<and> (\<exists>d. decodeEnvelope
             (JObj [(''method'', JStr ''none''), (''nodeName'', JStr ''n''),
                    (''base64'', JStr ''ss://Y2hhY2hhMjA6cHdAMTAuMC4wLjE6NDQzeA==#n'')])
           = ([], Inr d)
         \<and> field d ''type'' = JStr (enumValue Shadowsocks)
         \<and> field d ''method'' = JStr ''chacha20''
         \<and> field d ''password'' = JStr ''pw''
         \<and> field d ''hostname'' = JStr ''10.0.0.1''
         \<and> field d ''port'' = parseInt (Some ''443x'')
         \<and> (\<forall>k. k \<notin> {''type'', ''hostname'', ''port'', ''method'', ''password''}
                \<longrightarrow> field d k
                    = field (JObj [(''method'', JStr ''none''), (''nodeName'', JStr ''n''),
                                   (''base64'', JStr ''ss://Y2hhY2hhMjA6cHdAMTAuMC4wLjE6NDQzeA==#n'')]) k))"
proof -
  let ?node = "JObj [(''method'', JStr ''none''), (''nodeName'', JStr ''n''),
                     (''base64'', JStr ''ss://Y2hhY2hhMjA6cHdAMTAuMC4wLjE6NDQzeA==#n'')]"
  have h1: "getProp ?node ''base64'' = Inr (JStr ''ss://Y2hhY2hhMjA6cHdAMTAuMC4wLjE6NDQzeA==#n'')"
    by simp
  have h2: "base64Pattern ''ss://Y2hhY2hhMjA6cHdAMTAuMC4wLjE6NDQzeA==#n''
      = Some (''ss'', ''Y2hhY2hhMjA6cHdAMTAuMC4wLjE6NDQzeA=='')"
    by code_simp
  have h3: "Base64_decode ''Y2hhY2hhMjA6cHdAMTAuMC4wLjE6NDQzeA==''
      = ''chacha20'' @ '':'' @ ''pw'' @ ''@'' @ ''10.0.0.1'' @ '':'' @ ''443x''"
    by code_simp
  have h4: "CHR '':'' \<notin> set ''chacha20''" "CHR '':'' \<notin> set ''pw''" "CHR ''@'' \<notin> set ''pw''"
    "CHR '':'' \<notin> set ''10.0.0.1''" "CHR ''@'' \<notin> set ''10.0.0.1''"
    by simp_all
  have p: "parseInt (Some ''443x'') = JNum 443"
    by code_simp
  show ?thesis
    by (intro conjI h1 h2 h3 h4 p decodeEnvelope_ss_fields [OF h1 h2 h3 h4])
qed

text \<open>
  C3. A descriptor whose envelope is \<open>ss://\<close> followed by the base64 encoding of
  \<open>aes-256-gcm:secret@example.com:8388\<close> is decoded into a descriptor tagged
  Shadowsocks with method \<open>aes-256-gcm\<close>, password \<open>secret\<close>, hostname
  \<open>example.com\<close> and port \<open>8388\<close>. When that descriptor passes the guard and
  the Shadowsocks schema accepts it and keeps these five fields, the list returned by
  \<open>getNodeList\<close> for any source holding the descriptor contains a node with them.
\<close>

theorem ss_envelope_example:
  assumes env: "getProp node ''base64''
                  = Inr (JStr ''ss://YWVzLTI1Ni1nY206c2VjcmV0QGV4YW1wbGUuY29tOjgzODg='')"
  shows "\<exists>d. decodeEnvelope node = ([], Inr d)
           \<and> field d ''type'' = JStr ''shadowsocks''
           \<and> field d ''method'' = JStr ''aes-256-gcm''
           \<and> field d ''password'' = JStr ''secret''
           \<and> field d ''hostname'' = JStr ''example.com''
           \<and> field d ''port'' = JNum 8388
           \<and> (deprecatedGuard d = Inr ()
                \<longrightarrow> V Shadowsocks d = Inr parsedNode
                \<longrightarrow> (\<forall>k \<in> {''type'', ''method'', ''password'', ''hostname'', ''port''}.
                       field parsedNode k = field d k)
                \<longrightarrow> resolveNodeList (nodeList this) params = Inr nodes
                \<longrightarrow> node \<in> set nodes
                \<longrightarrow> (\<exists>parsed out n.
                       getNodeList V this params = Inr (parsed, out)
                       \<and> n \<in> set parsed
                       \<and> field n ''type'' = JStr ''shadowsocks''
                       \<and> field n ''method'' = JStr ''aes-256-gcm''
                       \<and> field n ''password'' = JStr ''secret''
                       \<and> field n ''hostname'' = JStr ''example.com''
                       \<and> field n ''port'' = JNum 8388))"
proof -
  obtain kvs where node: "node = JObj kvs"
    using getProp_Inr_JStr_obj [OF env] by blast
  let ?d = "JObj (AList.update ''password'' (JStr ''secret'')
                 (AList.update ''method'' (JStr ''aes-256-gcm'')
                 (AList.update ''port'' (JNum 8388)
                 (AList.update ''hostname'' (JStr ''example.com'')
                 (AList.update ''type'' (JStr ''shadowsocks'') kvs)))))"
  have sep: "CHR '':'' \<notin> set ''aes-256-gcm''" "CHR '':'' \<notin> set ''secret''"
    "CHR ''@'' \<notin> set ''secret''" "CHR '':'' \<notin> set ''example.com''"
    "CHR ''@'' \<notin> set ''example.com''"
    by simp_all
  have "decodeShadowsocks node
          (Base64_decode ''YWVzLTI1Ni1nY206c2VjcmV0QGV4YW1wbGUuY29tOjgzODg='') = Inr ?d"
    unfolding ss_example_decoded(2) decodeShadowsocks_well_formed [OF sep] ss_example_decoded(3)
    by (simp add: node)
  then have dec: "decodeEnvelope node = ([], Inr ?d)"
    using decodeEnvelope_ss [OF env ss_example_decoded(1)] by simp
  have fields: "field ?d ''type'' = JStr ''shadowsocks''"
      "field ?d ''method'' = JStr ''aes-256-gcm''"
      "field ?d ''password'' = JStr ''secret''"
      "field ?d ''hostname'' = JStr ''example.com''"
      "field ?d ''port'' = JNum 8388"
    by (simp_all add: update_conv')
  have batch: "\<exists>parsed out n.
                 getNodeList V this params = Inr (parsed, out)
                 \<and> n \<in> set parsed
                 \<and> field n ''type'' = JStr ''shadowsocks''
                 \<and> field n ''method'' = JStr ''aes-256-gcm''
                 \<and> field n ''password'' = JStr ''secret''
                 \<and> field n ''hostname'' = JStr ''example.com''
                 \<and> field n ''port'' = JNum 8388"
    if guard: "deprecatedGuard ?d = Inr ()"
      and valid: "V Shadowsocks ?d = Inr parsedNode"
      and keeps: "\<forall>k \<in> {''type'', ''method'', ''password'', ''hostname'', ''port''}.
                    field parsedNode k = field ?d k"
      and res: "resolveNodeList (nodeList this) params = Inr nodes"
      and mem: "node \<in> set nodes"
  proof -
    have pf: "field parsedNode ''type'' = JStr ''shadowsocks''"
      "field parsedNode ''method'' = JStr ''aes-256-gcm''"
      "field parsedNode ''password'' = JStr ''secret''"
      "field parsedNode ''hostname'' = JStr ''example.com''"
      "field parsedNode ''port'' = JNum 8388"
      using keeps fields by simp_all
    obtain n where n: "parseNode V (underlyingProxy this) ?d = Inr n"
        "\<forall>k. k \<noteq> ''underlyingProxy'' \<longrightarrow> field n k = field parsedNode k"
      using parseNode_shadowsocks [where V = V and up = "underlyingProxy this",
                                     OF fields(1) guard valid pf(1)] by blast
    have "snd (processNode V (underlyingProxy this) node) = Inr n"
      using dec n(1) by (simp add: processNode_decoded)
    then have m: "n \<in> set (validatedNodes V (underlyingProxy this) nodes)"
      by (rule validatedNodes_member [OF mem])
    obtain out where
      g: "getNodeList V this params = Inr (validatedNodes V (underlyingProxy this) nodes, out)"
      using getNodeList_validatedNodes [OF res] by blast
    have nf: "field n ''type'' = JStr ''shadowsocks''"
      "field n ''method'' = JStr ''aes-256-gcm''"
      "field n ''password'' = JStr ''secret''"
      "field n ''hostname'' = JStr ''example.com''"
      "field n ''port'' = JNum 8388"
      using n(2) pf by simp_all
    show ?thesis
      by (intro exI conjI) (rule g m nf)+
  qed
  show ?thesis
    by (intro exI [of _ ?d] conjI impI dec fields) (rule batch)
qed

theorem ss_envelope_example_witness:
  "getProp (JObj [(''nodeName'', JStr ''home''),
                  (''base64'', JStr ''ss://YWVzLTI1Ni1nY206c2VjcmV0QGV4YW1wbGUuY29tOjgzODg='')])
      ''base64''
     = Inr (JStr ''ss://YWVzLTI1Ni1nY206c2VjcmV0QGV4YW1wbGUuY29tOjgzODg='')
   \<and> (\<exists>parsed out n.
         getNodeList sampleValidators
           \<lparr>nodeList = StaticList
              [JObj [(''nodeName'', JStr ''home''),
                     (''base64'', JStr ''ss://YWVzLTI1Ni1nY206c2VjcmV0QGV4YW1wbGUuY29tOjgzODg='')]],
            underlyingProxy = None\<rparr> ()
           = Inr (parsed, out)
         \<and> n \<in> set parsed
         \<and> field n ''type'' = JStr ''shadowsocks''
         \<and> field n ''method'' = JStr ''aes-256-gcm''
         \<and> field n ''password'' = JStr ''secret''
         \<and> field n ''hostname'' = JStr ''example.com''
         \<and> field n ''port'' = JNum 8388)"
proof -
  let ?node = "JObj [(''nodeName'', JStr ''home''),
                  (''base64'', JStr ''ss://YWVzLTI1Ni1nY206c2VjcmV0QGV4YW1wbGUuY29tOjgzODg='')]"
  let ?d0 = "JObj [(''nodeName'', JStr ''home''),
                  (''base64'', JStr ''ss://YWVzLTI1Ni1nY206c2VjcmV0QGV4YW1wbGUuY29tOjgzODg=''),
                  (''type'', JStr ''shadowsocks''),
                  (''hostname'', JStr ''example.com''),
                  (''port'', JNum 8388),
                  (''method'', JStr ''aes-256-gcm''),
                  (''password'', JStr ''secret'')]"
  let ?prov = "\<lparr>nodeList = StaticList [?node], underlyingProxy = None\<rparr> :: unit CustomProvider"
  have h: "getProp ?node ''base64''
             = Inr (JStr ''ss://YWVzLTI1Ni1nY206c2VjcmV0QGV4YW1wbGUuY29tOjgzODg='')"
    by simp
  have d0: "decodeEnvelope ?node = ([], Inr ?d0)"
    by code_simp
  have g: "deprecatedGuard ?d0 = Inr ()"
    by code_simp
  have v: "sampleValidators Shadowsocks ?d0 = Inr ?d0"
    by code_simp
  have k: "\<forall>k \<in> {''type'', ''method'', ''password'', ''hostname'', ''port''}.
             field ?d0 k = field ?d0 k"
    by (rule ballI) (rule refl)
  have r: "resolveNodeList (nodeList ?prov) () = Inr [?node]"
    by (simp add: resolveNodeList_def)
  have m: "?node \<in> set [?node]"
    by simp
  from ss_envelope_example [OF h, where V = sampleValidators and parsedNode = ?d0
                                   and this = ?prov and params = "()" and nodes = "[?node]"]
  obtain d where all: "decodeEnvelope ?node = ([], Inr d)
           \<and> field d ''type'' = JStr ''shadowsocks''
           \<and> field d ''method'' = JStr ''aes-256-gcm''
           \<and> field d ''password'' = JStr ''secret''
           \<and> field d ''hostname'' = JStr ''example.com''
           \<and> field d ''port'' = JNum 8388
           \<and> (deprecatedGuard d = Inr ()
                \<longrightarrow> sampleValidators Shadowsocks d = Inr ?d0
                \<longrightarrow> (\<forall>k \<in> {''type'', ''method'', ''password'', ''hostname'', ''port''}.
                       field ?d0 k = field d k)
                \<longrightarrow> resolveNodeList (nodeList ?prov) () = Inr [?node]
                \<longrightarrow> ?node \<in> set [?node]
                \<longrightarrow> (\<exists>parsed out n.
                       getNodeList sampleValidators ?prov () = Inr (parsed, out)
                       \<and> n \<in> set parsed
                       \<and> field n ''type'' = JStr ''shadowsocks''
                       \<and> field n ''method'' = JStr ''aes-256-gcm''
                       \<and> field n ''password'' = JStr ''secret''
                       \<and> field n ''hostname'' = JStr ''example.com''
                       \<and> field n ''port'' = JNum 8388))" ..
  from all have "decodeEnvelope ?node = ([], Inr d)"
    by (rule conjunct1)
  with d0 have d: "d = ?d0"
    by simp
  from all have "\<exists>parsed out n.
                       getNodeList sampleValidators ?prov () = Inr (parsed, out)
                       \<and> n \<in> set parsed
                       \<and> field n ''type'' = JStr ''shadowsocks''
                       \<and> field n ''method'' = JStr ''aes-256-gcm''
                       \<and> field n ''password'' = JStr ''secret''
                       \<and> field n ''hostname'' = JStr ''example.com''
                       \<and> field n ''port'' = JNum 8388"
    unfolding d using g v k r m by (elim conjE) (erule mp [THEN mp, THEN mp, THEN mp, THEN mp])
  with h show ?thesis
    by (rule conjI)
qed

text \<open>
  C9, as stated, fails for a descriptor that carries the envelope field with the empty
  string: the empty string does not match the pattern, but \<open>if (node.base64)\<close>
  is false for it, the decoder is skipped, and a descriptor that is otherwise valid
  is returned.
\<close>

theorem empty_envelope_counterexample:
  "getProp (JObj [(''type'', JStr ''shadowsocks''), (''nodeName'', JStr ''home''),
                  (''hostname'', JStr ''example.com''), (''port'', JNum 8388),
                  (''method'', JStr ''aes-256-gcm''), (''password'', JStr ''secret''),
                  (''base64'', JStr '''')]) ''base64'' = Inr (JStr '''')
   \<and> base64Pattern '''' = None
   \<and> decodeEnvelope
        (JObj [(''type'', JStr ''shadowsocks''), (''nodeName'', JStr ''home''),
               (''hostname'', JStr ''example.com''), (''port'', JNum 8388),
               (''method'', JStr ''aes-256-gcm''), (''password'', JStr ''secret''),
               (''base64'', JStr '''')])
       = ([], Inr (JObj [(''type'', JStr ''shadowsocks''), (''nodeName'', JStr ''home''),
                         (''hostname'', JStr ''example.com''), (''port'', JNum 8388),
                         (''method'', JStr ''aes-256-gcm''), (''password'', JStr ''secret''),
                         (''base64'', JStr '''')]))
   \<and> getNodeList sampleValidators
        \<lparr>nodeList = StaticList
           [JObj [(''type'', JStr ''shadowsocks''), (''nodeName'', JStr ''home''),
                  (''hostname'', JStr ''example.com''), (''port'', JNum 8388),
                  (''method'', JStr ''aes-256-gcm''), (''password'', JStr ''secret''),
                  (''base64'', JStr '''')]],
         underlyingProxy = None\<rparr> ()
       = Inr ([JObj [(''type'', JStr ''shadowsocks''), (''nodeName'', JStr ''home''),
                     (''hostname'', JStr ''example.com''), (''port'', JNum 8388),
                     (''method'', JStr ''aes-256-gcm''), (''password'', JStr ''secret''),
                     (''base64'', JStr '''')]], [])"
  by code_simp

text \<open>
  C9, amended. For every descriptor whose envelope field is a non-empty string that
  does not match the pattern, processing prints and throws "Invalid base64 format";
  the descriptor is left out of the result, which holds the nodes of the descriptors
  before and after it, and the failure is reported with the descriptor's index.
\<close>

theorem invalid_envelope_is_dropped:
  assumes "getProp node ''base64'' = Inr (JStr envelope)"
    and "envelope \<noteq> []"
    and "base64Pattern envelope = None"
  shows "processNode V (underlyingProxy this) node
           = ([''Invalid base64 format''], Inl InvalidBase64Format)
         \<and> (resolveNodeList (nodeList this) params = Inr (pre @ node # post)
              \<longrightarrow> (\<exists>out. getNodeList V this params
                           = Inr (validatedNodes V (underlyingProxy this) pre
                                    @ validatedNodes V (underlyingProxy this) post, out)
                         \<and> ErrorParsingNode (length pre) InvalidBase64Format \<in> set out))"
proof -
  have p: "processNode V (underlyingProxy this) node
             = ([''Invalid base64 format''], Inl InvalidBase64Format)"
    using assms by (simp add: processNode_def decodeEnvelope_def)
  then have "snd (processNode V (underlyingProxy this) node) = Inl InvalidBase64Format"
    by simp
  from getNodeList_drops_failure [OF _ this] p show ?thesis
    by blast
qed

theorem invalid_envelope_is_dropped_witness:
  "getProp (JObj [(''type'', JStr ''trojan''), (''nodeName'', JStr ''t''),
                  (''base64'', JStr ''trojan://cGFzcw=='')]) ''base64''
     = Inr (JStr ''trojan://cGFzcw=='')
   \<and> ''trojan://cGFzcw=='' \<noteq> []
   \<and> base64Pattern ''trojan://cGFzcw=='' = None
   \<and> resolveNodeList
        (nodeList \<lparr>nodeList = StaticList
           ([JObj [(''type'', JStr ''snell''), (''nodeName'', JStr ''a'')]]
            @ JObj [(''type'', JStr ''trojan''), (''nodeName'', JStr ''t''),
                    (''base64'', JStr ''trojan://cGFzcw=='')]
            # []),
         underlyingProxy = None\<rparr>) ()
       = Inr ([JObj [(''type'', JStr ''snell''), (''nodeName'', JStr ''a'')]]
            @ JObj [(''type'', JStr ''trojan''), (''nodeName'', JStr ''t''),
                    (''base64'', JStr ''trojan://cGFzcw=='')]
            # [])
   \<and> processNode sampleValidators None
        (JObj [(''type'', JStr ''trojan''), (''nodeName'', JStr ''t''),
               (''base64'', JStr ''trojan://cGFzcw=='')])
       = ([''Invalid base64 format''], Inl InvalidBase64Format)
   \<and> getNodeList sampleValidators
        \<lparr>nodeList = StaticList
           ([JObj [(''type'', JStr ''snell''), (''nodeName'', JStr ''a'')]]
            @ JObj [(''type'', JStr ''trojan''), (''nodeName'', JStr ''t''),
                    (''base64'', JStr ''trojan://cGFzcw=='')]
            # []),
         underlyingProxy = None\<rparr> ()
       = Inr ([JObj [(''type'', JStr ''snell''), (''nodeName'', JStr ''a'')]],
              [Printed ''Invalid base64 format'', ErrorParsingNode 1 InvalidBase64Format])
   \<and> ErrorParsingNode 1 InvalidBase64Format
        \<in> set [Printed ''Invalid base64 format'', ErrorParsingNode 1 InvalidBase64Format]"
proof -
  let ?a = "JObj [(''type'', JStr ''snell''), (''nodeName'', JStr ''a'')]"
  let ?node = "JObj [(''type'', JStr ''trojan''), (''nodeName'', JStr ''t''),
                     (''base64'', JStr ''trojan://cGFzcw=='')]"
  let ?prov = "\<lparr>nodeList = StaticList ([?a] @ ?node # []), underlyingProxy = None\<rparr>
                 :: unit CustomProvider"
  have h1: "getProp ?node ''base64'' = Inr (JStr ''trojan://cGFzcw=='')"
    by simp
  have h2: "''trojan://cGFzcw=='' \<noteq> []"
    by simp
  have h3: "base64Pattern ''trojan://cGFzcw=='' = None"
    by code_simp
  have r: "resolveNodeList (nodeList ?prov) () = Inr ([?a] @ ?node # [])"
    by (simp add: resolveNodeList_def)
  have g: "getNodeList sampleValidators ?prov ()
             = Inr ([?a], [Printed ''Invalid base64 format'',
                           ErrorParsingNode 1 InvalidBase64Format])"
    by code_simp
  note t = invalid_envelope_is_dropped
             [OF h1 h2 h3, where V = sampleValidators and this = ?prov and params = "()"
                           and pre = "[?a]" and post = "[]"]
  from t have p: "processNode sampleValidators None ?node
                    = ([''Invalid base64 format''], Inl InvalidBase64Format)"
    by simp
  from t r obtain out where
    o: "getNodeList sampleValidators ?prov ()
          = Inr (validatedNodes sampleValidators (underlyingProxy ?prov) [?a]
                   @ validatedNodes sampleValidators (underlyingProxy ?prov) [], out)"
       "ErrorParsingNode (length [?a]) InvalidBase64Format \<in> set out"
    by (elim conjE impE exE)
  from o(1) g have "out = [Printed ''Invalid base64 format'',
                           ErrorParsingNode 1 InvalidBase64Format]"
    by simp
  with o(2) have m: "ErrorParsingNode 1 InvalidBase64Format
        \<in> set [Printed ''Invalid base64 format'', ErrorParsingNode 1 InvalidBase64Format]"
    by simp
  show ?thesis
    by (intro conjI h1 h2 h3 r p g m)
qed

text \<open>
  C10. For every envelope that matches the pattern, the captured scheme is mapped by
  \<open>nodeTypeMap\<close> to Shadowsocks or to Vmess, so the \<open>default\<close> branch of the
  decoder's \<open>switch\<close> is never taken: no descriptor makes the decoder print the
  warning about an unsupported scheme, and the warning is in the console output of no
  batch.
\<close>

theorem unsupported_scheme_unreachable:
  "(base64Pattern envelope = Some (scheme, base64String)
      \<longrightarrow> nodeTypeMap scheme = Some Shadowsocks \<or> nodeTypeMap scheme = Some Vmess)
   \<and> unsupportedSchemeMessage \<notin> set (fst (decodeEnvelope node))
   \<and> (getNodeList V this params = Inr (parsed, out)
        \<longrightarrow> Printed unsupportedSchemeMessage \<notin> set out)"
proof (intro conjI impI)
  assume "base64Pattern envelope = Some (scheme, base64String)"
  then show "nodeTypeMap scheme = Some Shadowsocks \<or> nodeTypeMap scheme = Some Vmess"
    by (auto simp: nodeTypeMap_def dest: base64Pattern_scheme)
next
  show a: "unsupportedSchemeMessage \<notin> set (fst (decodeEnvelope node))" for node
    using decodeEnvelope_printed [of node] by (auto simp: unsupportedSchemeMessage_def)
  assume "getNodeList V this params = Inr (parsed, out)"
  then show "Printed unsupportedSchemeMessage \<notin> set out"
    using getNodeList_console [of V this params parsed out unsupportedSchemeMessage] a by blast
qed

theorem unsupported_scheme_unreachable_witness:
  "base64Pattern ''vmess://eyJ2IjoiMiJ9#home'' = Some (''vmess'', ''eyJ2IjoiMiJ9'')
   \<and> nodeTypeMap ''vmess'' = Some Vmess
   \<and> getNodeList sampleValidators
        \<lparr>nodeList = StaticList
           [JObj [(''type'', JStr ''vmess''), (''nodeName'', JStr ''v''),
                  (''base64'', JStr ''vmess://eyJ2IjoiMiJ9#home'')]],
         underlyingProxy = None\<rparr> ()
       = Inr ([JObj [(''type'', JStr ''vmess''), (''nodeName'', JStr ''v''),
                     (''base64'', JStr ''vmess://eyJ2IjoiMiJ9#home'')]], [])
   \<and> Printed unsupportedSchemeMessage \<notin> set ([] :: console list)"
proof -
  let ?node = "JObj [(''type'', JStr ''vmess''), (''nodeName'', JStr ''v''),
                  (''base64'', JStr ''vmess://eyJ2IjoiMiJ9#home'')]"
  let ?prov = "\<lparr>nodeList = StaticList [?node], underlyingProxy = None\<rparr> :: unit CustomProvider"
  have m: "base64Pattern ''vmess://eyJ2IjoiMiJ9#home'' = Some (''vmess'', ''eyJ2IjoiMiJ9'')"
    by code_simp
  have g: "getNodeList sampleValidators ?prov () = Inr ([?node], [])"
    by code_simp
  note u = unsupported_scheme_unreachable
             [of "''vmess://eyJ2IjoiMiJ9#home''" "''vmess''" "''eyJ2IjoiMiJ9''" ?node
                 sampleValidators ?prov "()" "[?node]" "[]"]
  from u m have t: "nodeTypeMap ''vmess'' = Some Shadowsocks \<or> nodeTypeMap ''vmess'' = Some Vmess"
    by (elim conjE) (rule mp)
  have t': "nodeTypeMap ''vmess'' = Some Vmess"
    by (simp add: nodeTypeMap_def)
  from u g have o: "Printed unsupportedSchemeMessage \<notin> set ([] :: console list)"
    by (elim conjE) (rule mp)
  show ?thesis
    by (intro conjI m t' g o)
qed

section \<open>The deprecated-field guard\<close>

text \<open>
  C4, as stated, fails: the guard tests the value of each deprecated field for
  truthiness, not the presence of the field. A Shadowsocks descriptor with
  \<open>'udp-relay': false\<close> passes the guard and is returned.
\<close>

theorem falsy_deprecated_field_counterexample:
  "map_of [(''type'', JStr ''shadowsocks''), (''nodeName'', JStr ''home''),
           (''hostname'', JStr ''example.com''), (''port'', JNum 8388),
           (''method'', JStr ''aes-256-gcm''), (''password'', JStr ''secret''),
           (''udp-relay'', JBool False)] ''udp-relay'' = Some (JBool False)
   \<and> deprecatedGuard
        (JObj [(''type'', JStr ''shadowsocks''), (''nodeName'', JStr ''home''),
               (''hostname'', JStr ''example.com''), (''port'', JNum 8388),
               (''method'', JStr ''aes-256-gcm''), (''password'', JStr ''secret''),
               (''udp-relay'', JBool False)]) = Inr ()
   \<and> getNodeList sampleValidators
        \<lparr>nodeList = StaticList
           [JObj [(''type'', JStr ''shadowsocks''), (''nodeName'', JStr ''home''),
                  (''hostname'', JStr ''example.com''), (''port'', JNum 8388),
                  (''method'', JStr ''aes-256-gcm''), (''password'', JStr ''secret''),
                  (''udp-relay'', JBool False)]],
         underlyingProxy = None\<rparr> ()
       = Inr ([JObj [(''type'', JStr ''shadowsocks''), (''nodeName'', JStr ''home''),
                     (''hostname'', JStr ''example.com''), (''port'', JNum 8388),
                     (''method'', JStr ''aes-256-gcm''), (''password'', JStr ''secret''),
                     (''udp-relay'', JBool False)]], [])"
  by code_simp

text \<open>
  C4, amended. For every descriptor on which \<open>udp-relay\<close>, \<open>obfs-host\<close> or
  \<open>obfs-uri\<close> has a truthy value, processing fails: when the envelope decoder has
  not failed before, the error names the first of the three fields, in this order,
  whose value is truthy, and its replacement. The descriptor is left out of the
  result and the failure is reported with its index.
\<close>

theorem truthy_deprecated_field_is_fatal:
  assumes "truthy (field node ''udp-relay'') \<or> truthy (field node ''obfs-host'')
           \<or> truthy (field node ''obfs-uri'')"
  shows "\<exists>e. snd (processNode V (underlyingProxy this) node) = Inl e
           \<and> (case snd (decodeEnvelope node) of
                 Inl e' \<Rightarrow> e = e'
               | Inr d \<Rightarrow>
                   e = (if truthy (field node ''udp-relay'') then Deprecated ''udp-relay'' ''udpRelay''
                        else if truthy (field node ''obfs-host'') then Deprecated ''obfs-host'' ''obfsHost''
                        else Deprecated ''obfs-uri'' ''obfsUri''))
           \<and> (resolveNodeList (nodeList this) params = Inr (pre @ node # post)
                \<longrightarrow> (\<exists>out. getNodeList V this params
                             = Inr (validatedNodes V (underlyingProxy this) pre
                                      @ validatedNodes V (underlyingProxy this) post, out)
                           \<and> ErrorParsingNode (length pre) e \<in> set out))"
proof -
  obtain printed r where dec: "decodeEnvelope node = (printed, r)"
    by (cases "decodeEnvelope node")
  let ?dep = "if truthy (field node ''udp-relay'') then Deprecated ''udp-relay'' ''udpRelay''
              else if truthy (field node ''obfs-host'') then Deprecated ''obfs-host'' ''obfsHost''
              else Deprecated ''obfs-uri'' ''obfsUri''"
  have "\<exists>e. snd (processNode V (underlyingProxy this) node) = Inl e
           \<and> (case snd (decodeEnvelope node) of Inl e' \<Rightarrow> e = e' | Inr d \<Rightarrow> e = ?dep)"
  proof (cases r)
    case (Inl e)
    with dec show ?thesis by (simp add: processNode_decoded)
  next
    case (Inr d)
    have same: "field d ''udp-relay'' = field node ''udp-relay''"
         "field d ''obfs-host'' = field node ''obfs-host''"
         "field d ''obfs-uri'' = field node ''obfs-uri''"
      using dec Inr by (simp_all add: decodeEnvelope_keeps_fields del: field_JObj)
    have "parseNode V (underlyingProxy this) d = Inl ?dep"
      using parseNode_deprecated [of d V "underlyingProxy this"] assms unfolding same by simp
    with dec Inr show ?thesis by (simp add: processNode_decoded)
  qed
  then obtain e where e: "snd (processNode V (underlyingProxy this) node) = Inl e"
      "case snd (decodeEnvelope node) of Inl e' \<Rightarrow> e = e' | Inr d \<Rightarrow> e = ?dep"
    by blast
  show ?thesis
    using e getNodeList_drops_failure [of this params pre node post V e] by blast
qed

theorem truthy_deprecated_field_is_fatal_witness:
  "(truthy (field (JObj [(''type'', JStr ''trojan''), (''nodeName'', JStr ''t''),
                         (''obfs-host'', JStr ''example.com''), (''obfs-uri'', JStr ''/'')])
              ''udp-relay'')
    \<or> truthy (field (JObj [(''type'', JStr ''trojan''), (''nodeName'', JStr ''t''),
                           (''obfs-host'', JStr ''example.com''), (''obfs-uri'', JStr ''/'')])
                ''obfs-host'')
    \<or> truthy (field (JObj [(''type'', JStr ''trojan''), (''nodeName'', JStr ''t''),
                           (''obfs-host'', JStr ''example.com''), (''obfs-uri'', JStr ''/'')])
                ''obfs-uri''))
   \<and> resolveNodeList
        (nodeList \<lparr>nodeList = StaticList
           ([JObj [(''type'', JStr ''snell''), (''nodeName'', JStr ''a'')]]
            @ JObj [(''type'', JStr ''trojan''), (''nodeName'', JStr ''t''),
                    (''obfs-host'', JStr ''example.com''), (''obfs-uri'', JStr ''/'')]
            # [JObj [(''type'', JStr ''tuic''), (''nodeName'', JStr ''b'')]]),
         underlyingProxy = None\<rparr>) ()
       = Inr ([JObj [(''type'', JStr ''snell''), (''nodeName'', JStr ''a'')]]
            @ JObj [(''type'', JStr ''trojan''), (''nodeName'', JStr ''t''),
                    (''obfs-host'', JStr ''example.com''), (''obfs-uri'', JStr ''/'')]
            # [JObj [(''type'', JStr ''tuic''), (''nodeName'', JStr ''b'')]])
   \<and> getNodeList sampleValidators
        \<lparr>nodeList = StaticList
           ([JObj [(''type'', JStr ''snell''), (''nodeName'', JStr ''a'')]]
            @ JObj [(''type'', JStr ''trojan''), (''nodeName'', JStr ''t''),
                    (''obfs-host'', JStr ''example.com''), (''obfs-uri'', JStr ''/'')]
            # [JObj [(''type'', JStr ''tuic''), (''nodeName'', JStr ''b'')]]),
         underlyingProxy = None\<rparr> ()
       = Inr ([JObj [(''type'', JStr ''snell''), (''nodeName'', JStr ''a'')],
               JObj [(''type'', JStr ''tuic''), (''nodeName'', JStr ''b'')]],
              [ErrorParsingNode 1 (Deprecated ''obfs-host'' ''obfsHost'')])
   \<and> (\<exists>e. snd (processNode sampleValidators None
                  (JObj [(''type'', JStr ''trojan''), (''nodeName'', JStr ''t''),
                         (''obfs-host'', JStr ''example.com''), (''obfs-uri'', JStr ''/'')]))
              = Inl e
          \<and> ErrorParsingNode 1 e
               \<in> set [ErrorParsingNode 1 (Deprecated ''obfs-host'' ''obfsHost'')])"
proof -
  let ?a = "JObj [(''type'', JStr ''snell''), (''nodeName'', JStr ''a'')]"
  let ?b = "JObj [(''type'', JStr ''tuic''), (''nodeName'', JStr ''b'')]"
  let ?node = "JObj [(''type'', JStr ''trojan''), (''nodeName'', JStr ''t''),
                     (''obfs-host'', JStr ''example.com''), (''obfs-uri'', JStr ''/'')]"
  let ?prov = "\<lparr>nodeList = StaticList ([?a] @ ?node # [?b]), underlyingProxy = None\<rparr>
                 :: unit CustomProvider"
  have h: "truthy (field ?node ''udp-relay'') \<or> truthy (field ?node ''obfs-host'')
           \<or> truthy (field ?node ''obfs-uri'')"
    by simp
  have r: "resolveNodeList (nodeList ?prov) () = Inr ([?a] @ ?node # [?b])"
    by (simp add: resolveNodeList_def)
  have g: "getNodeList sampleValidators ?prov ()
             = Inr ([?a, ?b], [ErrorParsingNode 1 (Deprecated ''obfs-host'' ''obfsHost'')])"
    by code_simp
  from truthy_deprecated_field_is_fatal
         [OF h, where V = sampleValidators and this = ?prov and params = "()"
                  and pre = "[?a]" and post = "[?b]"]
  obtain e where e: "snd (processNode sampleValidators (underlyingProxy ?prov) ?node) = Inl e"
    and batch: "resolveNodeList (nodeList ?prov) () = Inr ([?a] @ ?node # [?b])
                \<longrightarrow> (\<exists>out. getNodeList sampleValidators ?prov ()
                             = Inr (validatedNodes sampleValidators (underlyingProxy ?prov) [?a]
                                      @ validatedNodes sampleValidators (underlyingProxy ?prov) [?b],
                                    out)
                           \<and> ErrorParsingNode (length [?a]) e \<in> set out)"
    by (elim exE conjE)
  from batch r obtain out where
    o: "getNodeList sampleValidators ?prov ()
          = Inr (validatedNodes sampleValidators (underlyingProxy ?prov) [?a]
                   @ validatedNodes sampleValidators (underlyingProxy ?prov) [?b], out)"
       "ErrorParsingNode (length [?a]) e \<in> set out"
    by (elim impE exE conjE)
  from o(1) g have "out = [ErrorParsingNode 1 (Deprecated ''obfs-host'' ''obfsHost'')]"
    by simp
  with o(2) have "ErrorParsingNode 1 e \<in> set [ErrorParsingNode 1 (Deprecated ''obfs-host'' ''obfsHost'')]"
    by simp
  with e have x: "\<exists>e. snd (processNode sampleValidators None ?node) = Inl e
          \<and> ErrorParsingNode 1 e
               \<in> set [ErrorParsingNode 1 (Deprecated ''obfs-host'' ''obfsHost'')]"
    by (intro exI [of _ e] conjI) simp_all
  show ?thesis
    by (intro conjI h r g x)
qed

section \<open>Underlying-proxy propagation\<close>

text \<open>
  C8, as stated, fails at the empty string, which is a string like any other for the
  constructor's schema: \<open>this.underlyingProxy && !parsedNode.underlyingProxy\<close>
  tests truthiness. A node that declares \<open>underlyingProxy: ''\<close> has its value
  replaced by the provider's default, and a provider whose default is \<open>''\<close>
  assigns nothing to a node that declares none.
\<close>

theorem unfilled_underlyingProxy_counterexample:
  "fillUnderlyingProxy (Some ''proxy-a'')
     (JObj [(''type'', JStr ''trojan''), (''nodeName'', JStr ''t''),
            (''underlyingProxy'', JStr '''')])
     = Inr (JObj [(''type'', JStr ''trojan''), (''nodeName'', JStr ''t''),
                  (''underlyingProxy'', JStr ''proxy-a'')])
   \<and> getNodeList sampleValidators
        \<lparr>nodeList = StaticList
           [JObj [(''type'', JStr ''trojan''), (''nodeName'', JStr ''t''),
                  (''underlyingProxy'', JStr '''')]],
         underlyingProxy = Some ''proxy-a''\<rparr> ()
       = Inr ([JObj [(''type'', JStr ''trojan''), (''nodeName'', JStr ''t''),
                     (''underlyingProxy'', JStr ''proxy-a'')]], [])
   \<and> fillUnderlyingProxy (Some '''')
       (JObj [(''type'', JStr ''trojan''), (''nodeName'', JStr ''t'')])
     = Inr (JObj [(''type'', JStr ''trojan''), (''nodeName'', JStr ''t'')])"
  by code_simp

text \<open>
  C8, amended. On the parsed node that schema validation returns, the step assigns
  the provider's default exactly when the default is a non-empty string and the
  node's own \<open>underlyingProxy\<close> is absent or empty; a non-empty value declared by
  the node is never replaced, and no other field changes. The node that a descriptor
  yields at the end of its processing carries the \<open>underlyingProxy\<close> so determined.
\<close>

theorem underlyingProxy_default_fill:
  "(\<exists>p'. fillUnderlyingProxy up (JObj p) = Inr (JObj p')
        \<and> field (JObj p') ''underlyingProxy''
            = (case up of
                 Some u \<Rightarrow> if u \<noteq> [] \<and> \<not> truthy (field (JObj p) ''underlyingProxy'')
                           then JStr u else field (JObj p) ''underlyingProxy''
               | None \<Rightarrow> field (JObj p) ''underlyingProxy'')
        \<and> (\<forall>k. k \<noteq> ''underlyingProxy'' \<longrightarrow> field (JObj p') k = field (JObj p) k))
   \<and> (decodeEnvelope d = (printed, Inr d')
        \<and> validate V (field d' ''type'') d' = Inr (JObj p)
        \<and> snd (processNode V up d) = Inr n
      \<longrightarrow> field n ''underlyingProxy''
            = (case up of
                 Some u \<Rightarrow> if u \<noteq> [] \<and> \<not> truthy (field (JObj p) ''underlyingProxy'')
                           then JStr u else field (JObj p) ''underlyingProxy''
               | None \<Rightarrow> field (JObj p) ''underlyingProxy''))"
proof (intro conjI impI)
  let ?own = "field (JObj p) ''underlyingProxy''"
  let ?res = "case up of
                 Some u \<Rightarrow> if u \<noteq> [] \<and> \<not> truthy ?own then JStr u else ?own
               | None \<Rightarrow> ?own"
  have res: "(if truthy (strOrUndefined up) \<and> \<not> truthy ?own then strOrUndefined up else ?own)
               = ?res"
    by (cases up) (simp_all add: strOrUndefined_def del: field_JObj)
  obtain p' where f: "fillUnderlyingProxy up (JObj p) = Inr (JObj p')"
      "\<forall>k. k \<noteq> ''underlyingProxy'' \<longrightarrow> field (JObj p') k = field (JObj p) k"
      "field (JObj p') ''underlyingProxy'' = ?res"
    using fillUnderlyingProxy_obj [of up p] unfolding res by blast
  show "\<exists>p'. fillUnderlyingProxy up (JObj p) = Inr (JObj p')
        \<and> field (JObj p') ''underlyingProxy'' = ?res
        \<and> (\<forall>k. k \<noteq> ''underlyingProxy'' \<longrightarrow> field (JObj p') k = field (JObj p) k)"
    by (intro exI [of _ p'] conjI f(1) f(3) f(2))
  assume a: "decodeEnvelope d = (printed, Inr d')
        \<and> validate V (field d' ''type'') d' = Inr (JObj p)
        \<and> snd (processNode V up d) = Inr n"
  then have dec: "decodeEnvelope d = (printed, Inr d')"
    and valid: "validate V (field d' ''type'') d' = Inr (JObj p)"
    and ok: "snd (processNode V up d) = Inr n"
    by simp_all
  from dec ok have pn: "parseNode V up d' = Inr n"
    by (simp add: processNode_decoded)
  then obtain ty where t: "getProp d' ''type'' = Inr ty"
    by (cases "getProp d' ''type''") (simp_all add: parseNode_def andThen_def)
  from pn t have guard: "deprecatedGuard d' = Inr ()"
    by (cases "deprecatedGuard d'") (simp_all add: parseNode_def andThen_def)
  obtain q where q: "fillUnderlyingProxy up (JObj p) = Inr (JObj q)"
      "\<forall>k. k \<noteq> ''underlyingProxy'' \<longrightarrow> field (JObj q) k = field (JObj p) k"
      "field (JObj q) ''underlyingProxy''
               = (if truthy (strOrUndefined up) \<and> \<not> truthy ?own then strOrUndefined up else ?own)"
      "parseNode V up d'
               = (if field (JObj p) ''type'' = JStr ''vmess''
                  then prepareVmessNodeConfig (JObj q) else Inr (JObj q))"
    using parseNode_validated [OF guard valid, of up] by blast
  have "field n ''underlyingProxy'' = field (JObj q) ''underlyingProxy''"
  proof (cases "field (JObj p) ''type'' = JStr ''vmess''")
    case True
    with q(4) pn have "prepareVmessNodeConfig (JObj q) = Inr n" by simp
    from prepareVmessNodeConfig_keeps [OF this, of "''underlyingProxy''"]
    show ?thesis by simp
  next
    case False
    with q(4) pn show ?thesis by simp
  qed
  then show "field n ''underlyingProxy'' = ?res"
    unfolding q(3) res .
qed

theorem underlyingProxy_default_fill_witness:
  "decodeEnvelope (JObj [(''type'', JStr ''trojan''), (''nodeName'', JStr ''t'')])
     = ([], Inr (JObj [(''type'', JStr ''trojan''), (''nodeName'', JStr ''t'')]))
   \<and> validate sampleValidators
        (field (JObj [(''type'', JStr ''trojan''), (''nodeName'', JStr ''t'')]) ''type'')
        (JObj [(''type'', JStr ''trojan''), (''nodeName'', JStr ''t'')])
       = Inr (JObj [(''type'', JStr ''trojan''), (''nodeName'', JStr ''t'')])
   \<and> snd (processNode sampleValidators (Some ''proxy-a'')
             (JObj [(''type'', JStr ''trojan''), (''nodeName'', JStr ''t'')]))
       = Inr (JObj [(''type'', JStr ''trojan''), (''nodeName'', JStr ''t''),
                    (''underlyingProxy'', JStr ''proxy-a'')])
   \<and> field (JObj [(''type'', JStr ''trojan''), (''nodeName'', JStr ''t''),
                  (''underlyingProxy'', JStr ''proxy-a'')]) ''underlyingProxy''
       = JStr ''proxy-a''
   \<and> decodeEnvelope (JObj [(''type'', JStr ''vmess''), (''nodeName'', JStr ''v''),
                           (''underlyingProxy'', JStr ''proxy-b'')])
       = ([], Inr (JObj [(''type'', JStr ''vmess''), (''nodeName'', JStr ''v''),
                         (''underlyingProxy'', JStr ''proxy-b'')]))
   \<and> validate sampleValidators
        (field (JObj [(''type'', JStr ''vmess''), (''nodeName'', JStr ''v''),
                      (''underlyingProxy'', JStr ''proxy-b'')]) ''type'')
        (JObj [(''type'', JStr ''vmess''), (''nodeName'', JStr ''v''),
               (''underlyingProxy'', JStr ''proxy-b'')])
       = Inr (JObj [(''type'', JStr ''vmess''), (''nodeName'', JStr ''v''),
                    (''underlyingProxy'', JStr ''proxy-b'')])
   \<and> snd (processNode sampleValidators (Some ''proxy-a'')
             (JObj [(''type'', JStr ''vmess''), (''nodeName'', JStr ''v''),
                    (''underlyingProxy'', JStr ''proxy-b'')]))
       = Inr (JObj [(''type'', JStr ''vmess''), (''nodeName'', JStr ''v''),
                    (''underlyingProxy'', JStr ''proxy-b'')])
   \<and> field (JObj [(''type'', JStr ''vmess''), (''nodeName'', JStr ''v''),
                  (''underlyingProxy'', JStr ''proxy-b'')]) ''underlyingProxy''
       = (case Some ''proxy-a'' of
            Some u \<Rightarrow>
              if u \<noteq> [] \<and> \<not> truthy (field (JObj [(''type'', JStr ''vmess''), (''nodeName'', JStr ''v''),
                                                   (''underlyingProxy'', JStr ''proxy-b'')])
                                            ''underlyingProxy'')
              then JStr u
              else field (JObj [(''type'', JStr ''vmess''), (''nodeName'', JStr ''v''),
                                (''underlyingProxy'', JStr ''proxy-b'')]) ''underlyingProxy''
          | None \<Rightarrow> field (JObj [(''type'', JStr ''vmess''), (''nodeName'', JStr ''v''),
                                  (''underlyingProxy'', JStr ''proxy-b'')]) ''underlyingProxy'')"
proof -
  let ?p = "[(''type'', JStr ''trojan''), (''nodeName'', JStr ''t'')]"
  let ?n = "JObj [(''type'', JStr ''trojan''), (''nodeName'', JStr ''t''),
                  (''underlyingProxy'', JStr ''proxy-a'')]"
  let ?q = "[(''type'', JStr ''vmess''), (''nodeName'', JStr ''v''),
             (''underlyingProxy'', JStr ''proxy-b'')]"
  have d1: "decodeEnvelope (JObj ?p) = ([], Inr (JObj ?p))" by code_simp
  have v1: "validate sampleValidators (field (JObj ?p) ''type'') (JObj ?p) = Inr (JObj ?p)"
    by code_simp
  have s1: "snd (processNode sampleValidators (Some ''proxy-a'') (JObj ?p)) = Inr ?n"
    by code_simp
  have d2: "decodeEnvelope (JObj ?q) = ([], Inr (JObj ?q))" by code_simp
  have v2: "validate sampleValidators (field (JObj ?q) ''type'') (JObj ?q) = Inr (JObj ?q)"
    by code_simp
  have s2: "snd (processNode sampleValidators (Some ''proxy-a'') (JObj ?q)) = Inr (JObj ?q)"
    by code_simp
  note t1 = underlyingProxy_default_fill
              [where up = "Some ''proxy-a''" and p = ?p and d = "JObj ?p" and printed = "[]"
                 and d' = "JObj ?p" and V = sampleValidators and n = ?n]
  have "field ?n ''underlyingProxy''
          = (case Some ''proxy-a'' of
               Some u \<Rightarrow> if u \<noteq> [] \<and> \<not> truthy (field (JObj ?p) ''underlyingProxy'')
                         then JStr u else field (JObj ?p) ''underlyingProxy''
             | None \<Rightarrow> field (JObj ?p) ''underlyingProxy'')"
    by (rule mp [OF conjunct2 [OF t1] conjI [OF d1 conjI [OF v1 s1]]])
  then have r1: "field ?n ''underlyingProxy'' = JStr ''proxy-a''"
    by simp
  note t2 = underlyingProxy_default_fill
              [where up = "Some ''proxy-a''" and p = ?q and d = "JObj ?q" and printed = "[]"
                 and d' = "JObj ?q" and V = sampleValidators and n = "JObj ?q"]
  have r2: "field (JObj ?q) ''underlyingProxy''
          = (case Some ''proxy-a'' of
               Some u \<Rightarrow> if u \<noteq> [] \<and> \<not> truthy (field (JObj ?q) ''underlyingProxy'')
                         then JStr u else field (JObj ?q) ''underlyingProxy''
             | None \<Rightarrow> field (JObj ?q) ''underlyingProxy'')"
    by (rule mp [OF conjunct2 [OF t2] conjI [OF d2 conjI [OF v2 s2]]])
  show ?thesis
    by (intro conjI d1 v1 s1 r1 d2 v2 s2 r2)
qed

section \<open>Vmess post-processing\<close>

text \<open>
  C5, as stated, fails: \<open>if (node.host) { node.sni = node.host }\<close> does not look
  at \<open>sni\<close>. A node with host \<open>a.example.com\<close> and the explicit server name
  \<open>b.example.com\<close> leaves post-processing, and the batch, with server name
  \<open>a.example.com\<close>.
\<close>

theorem explicit_sni_overwritten_counterexample:
  "prepareVmessNodeConfig
     (JObj [(''type'', JStr ''vmess''), (''nodeName'', JStr ''v''),
            (''host'', JStr ''a.example.com''), (''sni'', JStr ''b.example.com'')])
     = Inr (JObj [(''type'', JStr ''vmess''), (''nodeName'', JStr ''v''),
                  (''host'', JStr ''a.example.com''), (''sni'', JStr ''a.example.com'')])
   \<and> getNodeList sampleValidators
        \<lparr>nodeList = StaticList
           [JObj [(''type'', JStr ''vmess''), (''nodeName'', JStr ''v''),
                  (''host'', JStr ''a.example.com''), (''sni'', JStr ''b.example.com'')]],
         underlyingProxy = None\<rparr> ()
       = Inr ([JObj [(''type'', JStr ''vmess''), (''nodeName'', JStr ''v''),
                     (''host'', JStr ''a.example.com''), (''sni'', JStr ''a.example.com'')]],
              [])"
  by code_simp

text \<open>
  C5, amended. The first rule never fails on a node, and after it, as after the whole
  of a post-processing that succeeds, the server name is the host when the host is
  truthy (a non-empty string), whether or not the node carried a server name of its
  own, and is what it was when the host is absent or empty.
\<close>

theorem host_copied_to_sni:
  "(\<exists>n1. copyHostToSni (JObj kvs) = Inr n1
         \<and> field n1 ''sni'' = (if truthy (field (JObj kvs) ''host'')
                               then field (JObj kvs) ''host'' else field (JObj kvs) ''sni''))
   \<and> (prepareVmessNodeConfig (JObj kvs) = Inr n
        \<longrightarrow> field n ''sni'' = (if truthy (field (JObj kvs) ''host'')
                               then field (JObj kvs) ''host'' else field (JObj kvs) ''sni''))"
proof (intro conjI impI)
  obtain kvs1 where c: "copyHostToSni (JObj kvs) = Inr (JObj kvs1)"
    using copyHostToSni_obj by blast
  from copyHostToSni_Inr [OF c, of "''sni''"] c
  show "\<exists>n1. copyHostToSni (JObj kvs) = Inr n1
         \<and> field n1 ''sni'' = (if truthy (field (JObj kvs) ''host'')
                               then field (JObj kvs) ''host'' else field (JObj kvs) ''sni'')"
    by (intro exI [of _ "JObj kvs1"]) simp
next
  assume "prepareVmessNodeConfig (JObj kvs) = Inr n"
  from prepareVmessNodeConfig_keeps [OF this, of "''sni''"]
  show "field n ''sni'' = (if truthy (field (JObj kvs) ''host'')
                           then field (JObj kvs) ''host'' else field (JObj kvs) ''sni'')"
    by simp
qed

theorem host_copied_to_sni_witness:
  "prepareVmessNodeConfig
     (JObj [(''type'', JStr ''vmess''), (''nodeName'', JStr ''v''),
            (''host'', JStr ''a.example.com'')])
     = Inr (JObj [(''type'', JStr ''vmess''), (''nodeName'', JStr ''v''),
                  (''host'', JStr ''a.example.com''), (''sni'', JStr ''a.example.com'')])
   \<and> field (JObj [(''type'', JStr ''vmess''), (''nodeName'', JStr ''v''),
                  (''host'', JStr ''a.example.com''), (''sni'', JStr ''a.example.com'')]) ''sni''
       = (if truthy (field (JObj [(''type'', JStr ''vmess''), (''nodeName'', JStr ''v''),
                                  (''host'', JStr ''a.example.com'')]) ''host'')
          then field (JObj [(''type'', JStr ''vmess''), (''nodeName'', JStr ''v''),
                            (''host'', JStr ''a.example.com'')]) ''host''
          else field (JObj [(''type'', JStr ''vmess''), (''nodeName'', JStr ''v''),
                            (''host'', JStr ''a.example.com'')]) ''sni'')
   \<and> prepareVmessNodeConfig
       (JObj [(''type'', JStr ''vmess''), (''nodeName'', JStr ''w''),
              (''host'', JStr ''''), (''sni'', JStr ''b.example.com'')])
     = Inr (JObj [(''type'', JStr ''vmess''), (''nodeName'', JStr ''w''),
                  (''host'', JStr ''''), (''sni'', JStr ''b.example.com'')])
   \<and> field (JObj [(''type'', JStr ''vmess''), (''nodeName'', JStr ''w''),
                  (''host'', JStr ''''), (''sni'', JStr ''b.example.com'')]) ''sni''
       = (if truthy (field (JObj [(''type'', JStr ''vmess''), (''nodeName'', JStr ''w''),
                                  (''host'', JStr ''''), (''sni'', JStr ''b.example.com'')]) ''host'')
          then field (JObj [(''type'', JStr ''vmess''), (''nodeName'', JStr ''w''),
                            (''host'', JStr ''''), (''sni'', JStr ''b.example.com'')]) ''host''
          else field (JObj [(''type'', JStr ''vmess''), (''nodeName'', JStr ''w''),
                            (''host'', JStr ''''), (''sni'', JStr ''b.example.com'')]) ''sni'')"
proof -
  let ?k1 = "[(''type'', JStr ''vmess''), (''nodeName'', JStr ''v''),
             (''host'', JStr ''a.example.com'')]"
  let ?n1 = "JObj [(''type'', JStr ''vmess''), (''nodeName'', JStr ''v''),
                   (''host'', JStr ''a.example.com''), (''sni'', JStr ''a.example.com'')]"
  let ?k2 = "[(''type'', JStr ''vmess''), (''nodeName'', JStr ''w''),
              (''host'', JStr ''''), (''sni'', JStr ''b.example.com'')]"
  have h1: "prepareVmessNodeConfig (JObj ?k1) = Inr ?n1"
    by code_simp
  have h2: "prepareVmessNodeConfig (JObj ?k2) = Inr (JObj ?k2)"
    by code_simp
  have c1: "field ?n1 ''sni''
              = (if truthy (field (JObj ?k1) ''host'') then field (JObj ?k1) ''host''
                 else field (JObj ?k1) ''sni'')"
    by (rule mp [OF conjunct2 [OF host_copied_to_sni [of ?k1 ?n1]] h1])
  have c2: "field (JObj ?k2) ''sni''
              = (if truthy (field (JObj ?k2) ''host'') then field (JObj ?k2) ''host''
                 else field (JObj ?k2) ''sni'')"
    by (rule mp [OF conjunct2 [OF host_copied_to_sni [of ?k2 "JObj ?k2"]] h2])
  show ?thesis
    by (intro conjI h1 c1 h2 c2)
qed



text \<open>
  C7, as stated, fails in two places. A node whose \<open>path\<close> was set to the empty
  string passes the three checks, since they test \<open>node.path\<close> for truthiness: with
  transport \<open>ws\<close> it is returned. And a node that also declares \<open>wsHeaders\<close> and
  \<open>wsOpts.headers\<close> fails in the second rule, with the conflict error and not with
  an error about its path.
\<close>

theorem empty_path_counterexample:
  "prepareVmessNodeConfig
     (JObj [(''type'', JStr ''vmess''), (''nodeName'', JStr ''v''),
            (''network'', JStr ''ws''), (''path'', JStr '''')])
     = Inr (JObj [(''type'', JStr ''vmess''), (''nodeName'', JStr ''v''),
                  (''network'', JStr ''ws''), (''path'', JStr '''')])
   \<and> getNodeList sampleValidators
        \<lparr>nodeList = StaticList
           [JObj [(''type'', JStr ''vmess''), (''nodeName'', JStr ''v''),
                  (''network'', JStr ''ws''), (''path'', JStr '''')]],
         underlyingProxy = None\<rparr> ()
       = Inr ([JObj [(''type'', JStr ''vmess''), (''nodeName'', JStr ''v''),
                     (''network'', JStr ''ws''), (''path'', JStr '''')]], [])
   \<and> prepareVmessNodeConfig
       (JObj [(''type'', JStr ''vmess''), (''nodeName'', JStr ''v''),
              (''network'', JStr ''ws''), (''path'', JStr ''/ws''),
              (''wsHeaders'', JObj [(''Host'', JStr ''a.example.com'')]),
              (''wsOpts'', JObj [(''path'', JStr ''/ws''),
                                 (''headers'', JObj [(''Host'', JStr ''b.example.com'')])])])
     = Inl WsHeadersConflict"
  by code_simp

text \<open>
  C7, amended. For every node whose transport is \<open>ws\<close>, \<open>h2\<close> or \<open>http\<close>
  and whose top-level \<open>path\<close> is truthy (a non-empty string), post-processing
  fails: with the error of the second rule when that rule throws, and otherwise with
  the error that sends the caller to the options path of the transport. In particular
  it fails so when the second rule has just built a fresh \<open>wsOpts\<close> from that path,
  because the node keeps its top-level \<open>path\<close>; and when the node has no
  \<open>wsHeaders\<close>.
\<close>

theorem legacy_path_is_fatal:
  assumes net: "field node ''network'' = JStr network"
    and tgt: "(network, target) \<in> {(''ws'', ''wsOpts.path''), (''h2'', ''h2Opts.path''),
                                   (''http'', ''httpOpts.path'')}"
    and path: "truthy (field node ''path'')"
  shows "prepareVmessNodeConfig node
           = (case relocateWsHeaders node of
                Inl e \<Rightarrow> Inl e
              | Inr n \<Rightarrow> Inl (MovePathTo target))
       \<and> (truthy (field node ''wsHeaders'') \<and> \<not> truthy (field node ''wsOpts'') \<longrightarrow>
            (\<exists>n. relocateWsHeaders node = Inr n
               \<and> field n ''wsOpts'' = JObj [(''headers'', field node ''wsHeaders''),
                                           (''path'', field node ''path'')]
               \<and> field n ''path'' = field node ''path'')
            \<and> prepareVmessNodeConfig node = Inl (MovePathTo target))
       \<and> (\<not> truthy (field node ''wsHeaders'')
            \<longrightarrow> prepareVmessNodeConfig node = Inl (MovePathTo target))"
proof -
  obtain kvs where node: "node = JObj kvs"
    using net by (cases node) (simp_all add: field_def)
  note eq = prepareVmessNodeConfig_path [OF net tgt path]
  have fresh: "(\<exists>n. relocateWsHeaders node = Inr n
               \<and> field n ''wsOpts'' = JObj [(''headers'', field node ''wsHeaders''),
                                           (''path'', field node ''path'')]
               \<and> field n ''path'' = field node ''path'')
            \<and> prepareVmessNodeConfig node = Inl (MovePathTo target)"
    if "truthy (field node ''wsHeaders'')" "\<not> truthy (field node ''wsOpts'')"
  proof -
    let ?n = "JObj (AList.update ''wsOpts''
                      (JObj [(''headers'', field node ''wsHeaders''),
                             (''path'', field node ''path'')]) kvs)"
    have r: "relocateWsHeaders node = Inr ?n"
      using that path unfolding node relocateWsHeaders_obj Let_def
      by (simp del: field_JObj)
    have w: "field ?n ''wsOpts'' = JObj [(''headers'', field node ''wsHeaders''),
                                        (''path'', field node ''path'')]"
      "field ?n ''path'' = field node ''path''"
      unfolding node by (simp_all add: update_conv')
    from eq r have "prepareVmessNodeConfig node = Inl (MovePathTo target)"
      by simp
    with r w show ?thesis by blast
  qed
  have plain: "prepareVmessNodeConfig node = Inl (MovePathTo target)"
    if "\<not> truthy (field node ''wsHeaders'')"
  proof -
    have "relocateWsHeaders node = Inr node"
      using that unfolding node relocateWsHeaders_obj Let_def by (simp del: field_JObj)
    with eq show ?thesis by simp
  qed
  show ?thesis
    using eq fresh plain by blast
qed

theorem legacy_path_is_fatal_witness:
  "field (JObj [(''type'', JStr ''vmess''), (''nodeName'', JStr ''a''),
                (''network'', JStr ''ws''), (''path'', JStr ''/ws''),
                (''wsHeaders'', JObj [(''Host'', JStr ''a.example.com'')])]) ''network''
     = JStr ''ws''
   \<and> (''ws'', ''wsOpts.path'') \<in> {(''ws'', ''wsOpts.path''), (''h2'', ''h2Opts.path''),
                                     (''http'', ''httpOpts.path'')}
   \<and> truthy (field (JObj [(''type'', JStr ''vmess''), (''nodeName'', JStr ''a''),
                          (''network'', JStr ''ws''), (''path'', JStr ''/ws''),
                          (''wsHeaders'', JObj [(''Host'', JStr ''a.example.com'')])]) ''path'')
   \<and> truthy (field (JObj [(''type'', JStr ''vmess''), (''nodeName'', JStr ''a''),
                          (''network'', JStr ''ws''), (''path'', JStr ''/ws''),
                          (''wsHeaders'', JObj [(''Host'', JStr ''a.example.com'')])]) ''wsHeaders'')
   \<and> \<not> truthy (field (JObj [(''type'', JStr ''vmess''), (''nodeName'', JStr ''a''),
                            (''network'', JStr ''ws''), (''path'', JStr ''/ws''),
                            (''wsHeaders'', JObj [(''Host'', JStr ''a.example.com'')])]) ''wsOpts'')
   \<and> prepareVmessNodeConfig
        (JObj [(''type'', JStr ''vmess''), (''nodeName'', JStr ''a''),
               (''network'', JStr ''ws''), (''path'', JStr ''/ws''),
               (''wsHeaders'', JObj [(''Host'', JStr ''a.example.com'')])])
       = Inl (MovePathTo ''wsOpts.path'')
   \<and> field (JObj [(''type'', JStr ''vmess''), (''nodeName'', JStr ''b''),
                  (''network'', JStr ''h2''), (''path'', JStr ''/h2'')]) ''network''
       = JStr ''h2''
   \<and> (''h2'', ''h2Opts.path'') \<in> {(''ws'', ''wsOpts.path''), (''h2'', ''h2Opts.path''),
                                     (''http'', ''httpOpts.path'')}
   \<and> truthy (field (JObj [(''type'', JStr ''vmess''), (''nodeName'', JStr ''b''),
                          (''network'', JStr ''h2''), (''path'', JStr ''/h2'')]) ''path'')
   \<and> \<not> truthy (field (JObj [(''type'', JStr ''vmess''), (''nodeName'', JStr ''b''),
                            (''network'', JStr ''h2''), (''path'', JStr ''/h2'')]) ''wsHeaders'')
   \<and> prepareVmessNodeConfig
        (JObj [(''type'', JStr ''vmess''), (''nodeName'', JStr ''b''),
               (''network'', JStr ''h2''), (''path'', JStr ''/h2'')])
       = Inl (MovePathTo ''h2Opts.path'')"
proof -
  let ?a = "JObj [(''type'', JStr ''vmess''), (''nodeName'', JStr ''a''),
                  (''network'', JStr ''ws''), (''path'', JStr ''/ws''),
                  (''wsHeaders'', JObj [(''Host'', JStr ''a.example.com'')])]"
  let ?b = "JObj [(''type'', JStr ''vmess''), (''nodeName'', JStr ''b''),
                  (''network'', JStr ''h2''), (''path'', JStr ''/h2'')]"
  have a1: "field ?a ''network'' = JStr ''ws''" by simp
  have a2: "(''ws'', ''wsOpts.path'') \<in> {(''ws'', ''wsOpts.path''), (''h2'', ''h2Opts.path''),
                                         (''http'', ''httpOpts.path'')}" by simp
  have a3: "truthy (field ?a ''path'')" by simp
  have a4: "truthy (field ?a ''wsHeaders'')" by simp
  have a5: "\<not> truthy (field ?a ''wsOpts'')" by simp
  have b1: "field ?b ''network'' = JStr ''h2''" by simp
  have b2: "(''h2'', ''h2Opts.path'') \<in> {(''ws'', ''wsOpts.path''), (''h2'', ''h2Opts.path''),
                                         (''http'', ''httpOpts.path'')}" by simp
  have b3: "truthy (field ?b ''path'')" by simp
  have b4: "\<not> truthy (field ?b ''wsHeaders'')" by simp
  note ta = legacy_path_is_fatal [OF a1 a2 a3]
  have ra: "prepareVmessNodeConfig ?a = Inl (MovePathTo ''wsOpts.path'')"
    by (rule conjunct2 [OF mp [OF conjunct1 [OF conjunct2 [OF ta]] conjI [OF a4 a5]]])
  note tb = legacy_path_is_fatal [OF b1 b2 b3]
  have rb: "prepareVmessNodeConfig ?b = Inl (MovePathTo ''h2Opts.path'')"
    by (rule mp [OF conjunct2 [OF conjunct2 [OF tb]] b4])
  show ?thesis
    by (intro conjI a1 a2 a3 a4 a5 ra b1 b2 b3 b4 rb)
qed

end
